theory Spec2Isabelle
  imports Main "HOL-Library.Word"
begin

unbundle bit_operations_syntax

section \<open>Data model\<close>

text \<open>
  A Go byte slice is either \<open>nil\<close> or a sequence of bytes; the code tests keys and
  values against \<open>nil\<close>, so the model keeps the difference: \<open>None\<close> is the nil slice,
  \<open>Some []\<close> the empty one. A node pointer is \<open>None\<close> (nil) or an address of the
  node store.
\<close>

type_synonym byte = "8 word"
type_synonym bytes = "byte list option"
type_synonym ptr = "nat option"

datatype error =
    IndexOutOfRange
  | SliceBounds
  | NilDereference
  | NilNode
  | NilKey int
  | TooShort
  | InsufficientKeyLength
  | InsufficientKey
  | InsufficientValueLength
  | InsufficientValue
  | InvalidPageIDWrite
  | InvalidPageIDRead
  | FileClosed
  | ShortRead
  | InvalidSize
  | DataTooLarge

text \<open>The four "insufficient data" errors of the decoder are the spec's \<open>Truncated\<close>.\<close>

definition Truncated :: "error \<Rightarrow> bool" where
  "Truncated e = (e = InsufficientKeyLength \<or> e = InsufficientKey \<or>
                  e = InsufficientValueLength \<or> e = InsufficientValue)"

subsection \<open>btree/node.go\<close>

definition MaxKeys :: nat where
  "MaxKeys = 4"

definition MinKeys :: nat where
  "MinKeys = MaxKeys div 2"

datatype NodeType = LeafNode | InternalNode

record Node =
  Type :: NodeType
  Keys :: "bytes list"
  Values :: "bytes list"
  Children :: "ptr list"
  Next :: ptr
  Parent :: ptr
  NumKeys :: int

definition NewLeafNode :: Node where
  "NewLeafNode = \<lparr> Type = LeafNode, Keys = replicate MaxKeys None,
                   Values = replicate MaxKeys None, Children = [],
                   Next = None, Parent = None, NumKeys = 0 \<rparr>"

definition NewInternalNode :: Node where
  "NewInternalNode = \<lparr> Type = InternalNode, Keys = replicate MaxKeys None,
                       Values = [], Children = replicate (MaxKeys + 1) None,
                       Next = None, Parent = None, NumKeys = 0 \<rparr>"

definition IsLeaf :: "Node \<Rightarrow> bool" where
  "IsLeaf n = (Type n = LeafNode)"

definition IsFull :: "Node \<Rightarrow> bool" where
  "IsFull n = (NumKeys n = int MaxKeys)"

definition IsUnderflow :: "Node \<Rightarrow> bool" where
  "IsUnderflow n = (if Parent n = None then False else NumKeys n < int MinKeys)"

text \<open>
  Reading and writing a slice element panics outside \<open>[0, len)\<close>; the model returns
  \<open>Inl IndexOutOfRange\<close> there.
\<close>

definition read_at :: "'a list \<Rightarrow> int \<Rightarrow> error + 'a" where
  "read_at xs i = (if 0 \<le> i \<and> i < int (length xs) then Inr (xs ! nat i) else Inl IndexOutOfRange)"

definition write_at :: "'a list \<Rightarrow> int \<Rightarrow> 'a \<Rightarrow> error + 'a list" where
  "write_at xs i v = (if 0 \<le> i \<and> i < int (length xs) then Inr (xs[nat i := v]) else Inl IndexOutOfRange)"

definition KeyAt :: "Node \<Rightarrow> int \<Rightarrow> error + bytes" where
  "KeyAt n i = (if i < 0 \<or> i \<ge> NumKeys n then Inr None else read_at (Keys n) i)"

definition ValueAt :: "Node \<Rightarrow> int \<Rightarrow> error + bytes" where
  "ValueAt n i = (if IsLeaf n then (if i < 0 \<or> i \<ge> NumKeys n then Inr None else read_at (Values n) i)
                  else Inr None)"

definition ChildAt :: "Node \<Rightarrow> int \<Rightarrow> error + ptr" where
  "ChildAt n i = (if IsLeaf n \<or> i < 0 \<or> i > NumKeys n then Inr None else read_at (Children n) i)"

subsection \<open>storage: the node codec\<close>

text \<open>
  \<open>binary.LittleEndian.PutUint32\<close> and \<open>Uint32\<close> of the Go standard library. Lengths and
  the key count are converted with \<open>uint32(...)\<close>, which keeps the low 32 bits.
\<close>

definition PutUint32 :: "32 word \<Rightarrow> byte list" where
  "PutUint32 v = [ucast v, ucast (drop_bit 8 v), ucast (drop_bit 16 v), ucast (drop_bit 24 v)]"

definition Uint32 :: "byte list \<Rightarrow> 32 word" where
  "Uint32 b = (ucast (b ! 0)) OR push_bit 8 (ucast (b ! 1)) OR
              push_bit 16 (ucast (b ! 2)) OR push_bit 24 (ucast (b ! 3))"

definition len32 :: "byte list \<Rightarrow> 32 word" where
  "len32 b = word_of_nat (length b)"

text \<open>
  The loop of \<open>SerializeNode\<close> over \<open>i = 0 .. NumKeys - 1\<close>, by recursion on the number of
  iterations left; it returns early with an error on a nil key.
\<close>

primrec serialize_entries :: "Node \<Rightarrow> nat \<Rightarrow> int \<Rightarrow> byte list \<Rightarrow> error + byte list" where
  "serialize_entries node 0 i buf = Inr buf"
| "serialize_entries node (Suc k) i buf =
     (case KeyAt node i of
        Inl e \<Rightarrow> Inl e
      | Inr None \<Rightarrow> Inl (NilKey i)
      | Inr (Some key) \<Rightarrow>
          (let buf1 = buf @ PutUint32 (len32 key) @ key in
           if IsLeaf node then
             (case ValueAt node i of
                Inl e \<Rightarrow> Inl e
              | Inr v \<Rightarrow>
                  (let val = (case v of None \<Rightarrow> [] | Some b \<Rightarrow> b) in
                   serialize_entries node k (i + 1) (buf1 @ PutUint32 (len32 val) @ val)))
           else serialize_entries node k (i + 1) buf1))"

definition SerializeNode :: "Node option \<Rightarrow> error + byte list" where
  "SerializeNode p =
     (case p of
        None \<Rightarrow> Inl NilNode
      | Some node \<Rightarrow>
          (let nodeType = (if IsLeaf node then 1 else 0 :: byte);
               buf = [nodeType] @ PutUint32 (word_of_int (NumKeys node)) in
           case serialize_entries node (nat (NumKeys node)) 0 buf of
             Inl e \<Rightarrow> Inl e
           | Inr buf1 \<Rightarrow>
               if \<not> IsLeaf node
               then Inr (buf1 @ concat (replicate (nat (NumKeys node + 1)) (PutUint32 0)))
               else Inr (buf1 @ PutUint32 0)))"

text \<open>
  The loop of \<open>DeserializeNode\<close> over \<open>i = 0 .. numKeys - 1\<close>. \<open>node.Keys[i] = key\<close> and
  \<open>node.Values[i] = val\<close> write into the \<open>MaxKeys\<close> slots the constructors allocate.
\<close>

primrec deserialize_entries :: "byte list \<Rightarrow> nat \<Rightarrow> int \<Rightarrow> nat \<Rightarrow> Node \<Rightarrow> error + Node" where
  "deserialize_entries data 0 i offset node = Inr node"
| "deserialize_entries data (Suc k) i offset node =
     (if offset + 4 > length data then Inl InsufficientKeyLength
      else
        let keyLen = unat (Uint32 (take 4 (drop offset data)));
            offset1 = offset + 4 in
        if offset1 + keyLen > length data then Inl InsufficientKey
        else
          let key = take keyLen (drop offset1 data);
              offset2 = offset1 + keyLen in
          case write_at (Keys node) i (Some key) of
            Inl e \<Rightarrow> Inl e
          | Inr ks \<Rightarrow>
              let node1 = node\<lparr>Keys := ks\<rparr> in
              if IsLeaf node1 then
                if offset2 + 4 > length data then Inl InsufficientValueLength
                else
                  let valLen = unat (Uint32 (take 4 (drop offset2 data)));
                      offset3 = offset2 + 4 in
                  if offset3 + valLen > length data then Inl InsufficientValue
                  else
                    let val = take valLen (drop offset3 data);
                        offset4 = offset3 + valLen in
                    case write_at (Values node1) i (Some val) of
                      Inl e \<Rightarrow> Inl e
                    | Inr vs \<Rightarrow> deserialize_entries data k (i + 1) offset4 (node1\<lparr>Values := vs\<rparr>)
              else deserialize_entries data k (i + 1) offset2 node1)"

definition DeserializeNode :: "byte list \<Rightarrow> error + Node" where
  "DeserializeNode data =
     (if length data < 5 then Inl TooShort
      else
        let nodeType = data ! 0;
            numKeys = Uint32 (take 4 (drop 1 data));
            node = (if nodeType = 1 then NewLeafNode else NewInternalNode) in
        case deserialize_entries data (unat numKeys) 0 5 node of
          Inl e \<Rightarrow> Inl e
        | Inr node1 \<Rightarrow> Inr (node1\<lparr>NumKeys := int (unat numKeys)\<rparr>))"

subsection \<open>btree/btree.go: the in-memory B+Tree\<close>

text \<open>
  Sequencing of fallible steps: the first panic or error ends the computation.
\<close>

definition bindE :: "error + 'a \<Rightarrow> ('a \<Rightarrow> error + 'b) \<Rightarrow> error + 'b" where
  "bindE m f = (case m of Inl e \<Rightarrow> Inl e | Inr x \<Rightarrow> f x)"

primrec forE :: "nat list \<Rightarrow> (nat \<Rightarrow> 's \<Rightarrow> error + 's) \<Rightarrow> 's \<Rightarrow> error + 's" where
  "forE [] body s = Inr s"
| "forE (i # is) body s = bindE (body i s) (forE is body)"

text \<open>
  \<open>bytes.Compare\<close> and \<open>bytes.Equal\<close> of the Go standard library: unsigned byte-wise
  lexicographic order; a nil slice compares as the empty one.
\<close>

definition data_of :: "bytes \<Rightarrow> byte list" where
  "data_of b = (case b of None \<Rightarrow> [] | Some x \<Rightarrow> x)"

fun compare_bytes :: "byte list \<Rightarrow> byte list \<Rightarrow> int" where
  "compare_bytes [] [] = 0"
| "compare_bytes [] (y # ys) = -1"
| "compare_bytes (x # xs) [] = 1"
| "compare_bytes (x # xs) (y # ys) =
     (if x < y then -1 else if y < x then 1 else compare_bytes xs ys)"

definition bytes_Compare :: "bytes \<Rightarrow> bytes \<Rightarrow> int" where
  "bytes_Compare a b = compare_bytes (data_of a) (data_of b)"

definition bytes_Equal :: "bytes \<Rightarrow> bytes \<Rightarrow> bool" where
  "bytes_Equal a b = (data_of a = data_of b)"

text \<open>
  The tree together with the part of the Go heap that holds its nodes: \<open>nodes\<close> maps an
  address to the node stored there and \<open>nalloc\<close> is the next unused address, so that
  \<open>NewLeafNode()\<close> and \<open>NewInternalNode()\<close> return a pointer no live node has.
\<close>

record BTree =
  root :: ptr
  size :: int
  nodes :: "nat \<Rightarrow> Node"
  nalloc :: nat

definition alloc :: "BTree \<Rightarrow> Node \<Rightarrow> nat \<times> BTree" where
  "alloc bt n = (nalloc bt, bt\<lparr>nodes := (nodes bt)(nalloc bt := n), nalloc := nalloc bt + 1\<rparr>)"

definition store :: "BTree \<Rightarrow> nat \<Rightarrow> Node \<Rightarrow> BTree" where
  "store bt a n = bt\<lparr>nodes := (nodes bt)(a := n)\<rparr>"

definition deref :: "BTree \<Rightarrow> ptr \<Rightarrow> Node option" where
  "deref bt p = map_option (nodes bt) p"

definition New :: BTree where
  "New = (let (r, bt) = alloc \<lparr>root = None, size = 0, nodes = (\<lambda>_. NewLeafNode), nalloc = 0\<rparr> NewLeafNode
          in bt\<lparr>root := Some r\<rparr>)"

primrec findKeyIndex_loop :: "Node \<Rightarrow> bytes \<Rightarrow> nat \<Rightarrow> int \<Rightarrow> error + int" where
  "findKeyIndex_loop node key 0 i = Inr (NumKeys node)"
| "findKeyIndex_loop node key (Suc k) i =
     (case KeyAt node i of
        Inl e \<Rightarrow> Inl e
      | Inr nodeKey \<Rightarrow>
          if nodeKey = None then findKeyIndex_loop node key k (i + 1)
          else if bytes_Compare key nodeKey \<le> 0 then Inr i
          else findKeyIndex_loop node key k (i + 1))"

definition findKeyIndex :: "Node option \<Rightarrow> bytes \<Rightarrow> error + int" where
  "findKeyIndex p key =
     (case p of None \<Rightarrow> Inr 0
      | Some node \<Rightarrow> findKeyIndex_loop node key (nat (NumKeys node)) 0)"

primrec findChildIndex_loop :: "Node \<Rightarrow> bytes \<Rightarrow> nat \<Rightarrow> int \<Rightarrow> error + int" where
  "findChildIndex_loop node key 0 i = Inr (NumKeys node)"
| "findChildIndex_loop node key (Suc k) i =
     (case KeyAt node i of
        Inl e \<Rightarrow> Inl e
      | Inr nodeKey \<Rightarrow>
          if bytes_Compare key nodeKey < 0 then Inr i
          else findChildIndex_loop node key k (i + 1))"

definition findChildIndex :: "Node \<Rightarrow> bytes \<Rightarrow> error + int" where
  "findChildIndex node key = findChildIndex_loop node key (nat (NumKeys node)) 0"

text \<open>
  \<open>findLeaf\<close> follows child pointers until it reaches a leaf or a nil child. On a store
  whose child pointers form a cycle the Go loop does not end; the model then has no
  result (\<open>None\<close>). A result is \<open>Some (Inl e)\<close> for a panic and \<open>Some (Inr p)\<close> for a
  returned pointer.
\<close>

partial_function (option) findLeaf_from :: "(nat \<Rightarrow> Node) \<Rightarrow> ptr \<Rightarrow> bytes \<Rightarrow> (error + ptr) option" where
  "findLeaf_from h current key =
     (case current of
        None \<Rightarrow> Some (Inr None)
      | Some c \<Rightarrow>
          if IsLeaf (h c) then Some (Inr current)
          else
            (case findChildIndex (h c) key of
               Inl e \<Rightarrow> Some (Inl e)
             | Inr idx \<Rightarrow>
                 (case ChildAt (h c) idx of
                    Inl e \<Rightarrow> Some (Inl e)
                  | Inr None \<Rightarrow> Some (Inr current)
                  | Inr (Some child) \<Rightarrow> findLeaf_from h (Some child) key)))"

definition findLeaf :: "BTree \<Rightarrow> bytes \<Rightarrow> (error + ptr) option" where
  "findLeaf bt key = findLeaf_from (nodes bt) (root bt) key"

text \<open>
  The test \<open>index >= 0 && index < leaf.NumKeys && bytes.Equal(leaf.KeyAt(index), key)\<close>
  shared by \<open>Get\<close>, \<open>Set\<close> and \<open>Delete\<close>; reading \<open>leaf.NumKeys\<close> through a nil
  pointer panics.
\<close>

definition key_at_index :: "Node option \<Rightarrow> int \<Rightarrow> bytes \<Rightarrow> error + bool" where
  "key_at_index p idx key =
     (case p of
        None \<Rightarrow> Inl NilDereference
      | Some leaf \<Rightarrow>
          if idx \<ge> 0 \<and> idx < NumKeys leaf
          then bindE (KeyAt leaf idx) (\<lambda>k. Inr (bytes_Equal k key))
          else Inr False)"

definition BTree_Get :: "BTree \<Rightarrow> bytes \<Rightarrow> (error + bytes \<times> bool) option" where
  "BTree_Get bt key =
     (if root bt = None then Some (Inr (None, False))
      else
        (case findLeaf bt key of
           None \<Rightarrow> None
         | Some (Inl e) \<Rightarrow> Some (Inl e)
         | Some (Inr leaf) \<Rightarrow>
             Some (bindE (findKeyIndex (deref bt leaf) key) (\<lambda>idx.
                   bindE (key_at_index (deref bt leaf) idx key) (\<lambda>hit.
                   if hit
                   then (case deref bt leaf of
                           None \<Rightarrow> Inl NilDereference
                         | Some n \<Rightarrow> bindE (ValueAt n idx) (\<lambda>v. Inr (v, True)))
                   else Inr (None, False))))))"

text \<open>
  The shifting loop of \<open>insertIntoLeaf\<close>:
  \<open>for i := leaf.NumKeys; i > index && i > 0; i-- { if i < MaxKeys && ... { ... } }\<close>.
\<close>

function insert_shift :: "Node \<Rightarrow> int \<Rightarrow> int \<Rightarrow> error + Node" where
  "insert_shift leaf idx i =
     (if i > idx \<and> i > 0 then
        (if i < int MaxKeys \<and> i - 1 \<ge> 0 \<and> i - 1 < int MaxKeys then
           bindE (read_at (Keys leaf) (i - 1)) (\<lambda>k.
           bindE (write_at (Keys leaf) i k) (\<lambda>ks.
           bindE (read_at (Values leaf) (i - 1)) (\<lambda>v.
           bindE (write_at (Values leaf) i v) (\<lambda>vs.
           insert_shift (leaf\<lparr>Keys := ks, Values := vs\<rparr>) idx (i - 1)))))
         else insert_shift leaf idx (i - 1))
      else Inr leaf)"
  by pat_completeness auto
termination
  by (relation "measure (\<lambda>(leaf, idx, i). nat i)") auto

declare insert_shift.simps [simp del]

text \<open>
  \<open>copy(dst[lo:hi], src)\<close> writes \<open>min (hi - lo) (len src)\<close> elements of \<open>src\<close> into
  \<open>dst\<close> from position \<open>lo\<close>; the slice expressions panic outside the capacity.
\<close>

definition slice :: "'a list \<Rightarrow> int \<Rightarrow> int \<Rightarrow> error + 'a list" where
  "slice xs lo hi =
     (if 0 \<le> lo \<and> lo \<le> hi \<and> hi \<le> int (length xs)
      then Inr (take (nat hi - nat lo) (drop (nat lo) xs)) else Inl SliceBounds)"

definition copy_at :: "'a list \<Rightarrow> int \<Rightarrow> int \<Rightarrow> 'a list \<Rightarrow> error + 'a list" where
  "copy_at dst lo hi src =
     bindE (slice dst lo hi) (\<lambda>d.
       let n = min (length d) (length src) in
       Inr (take (nat lo) dst @ take n src @ drop (nat lo + n) dst))"

text \<open>
  The first part of \<open>splitAndInsert\<close>: the \<open>MaxKeys + 1\<close> slot buffers \<open>allKeys\<close> and
  \<open>allValues\<close> holding the old entries and the new one at \<open>index\<close>.
\<close>

definition merge_entries ::
  "Node \<Rightarrow> bytes \<Rightarrow> bytes \<Rightarrow> int \<Rightarrow> error + bytes list \<times> bytes list" where
  "merge_entries leaf key val idx =
     (let allKeys = replicate (MaxKeys + 1) None;
          allValues = replicate (MaxKeys + 1) None in
      bindE (slice (Keys leaf) 0 idx) (\<lambda>ks1.
      bindE (copy_at allKeys 0 idx ks1) (\<lambda>allKeys.
      bindE (slice (Values leaf) 0 idx) (\<lambda>vs1.
      bindE (copy_at allValues 0 idx vs1) (\<lambda>allValues.
      bindE (write_at allKeys idx key) (\<lambda>allKeys.
      bindE (write_at allValues idx val) (\<lambda>allValues.
      bindE (slice (Keys leaf) idx (NumKeys leaf)) (\<lambda>ks2.
      bindE (copy_at allKeys (idx + 1) (int (length allKeys)) ks2) (\<lambda>allKeys.
      bindE (slice (Values leaf) idx (NumKeys leaf)) (\<lambda>vs2.
      bindE (copy_at allValues (idx + 1) (int (length allValues)) vs2) (\<lambda>allValues.
      Inr (allKeys, allValues))))))))))))"

text \<open>
  The distribution loops of \<open>splitAndInsert\<close> on the two leaves, \<open>mid = (MaxKeys + 1) / 2\<close>
  in Go's integer division.
\<close>

definition midIndex_leaf :: nat where
  "midIndex_leaf = (MaxKeys + 1) div 2"

definition fill_left :: "bytes list \<Rightarrow> bytes list \<Rightarrow> Node \<Rightarrow> error + Node" where
  "fill_left allKeys allValues leaf =
     bindE (forE [0 ..< midIndex_leaf] (\<lambda>i lf.
              bindE (read_at allKeys (int i)) (\<lambda>k.
              bindE (write_at (Keys lf) (int i) k) (\<lambda>ks.
              bindE (read_at allValues (int i)) (\<lambda>v.
              bindE (write_at (Values lf) (int i) v) (\<lambda>vs.
              Inr (lf\<lparr>Keys := ks, Values := vs\<rparr>)))))) leaf)
       (\<lambda>lf. Inr (lf\<lparr>NumKeys := int midIndex_leaf\<rparr>))"

definition fill_right :: "bytes list \<Rightarrow> bytes list \<Rightarrow> Node \<Rightarrow> error + Node" where
  "fill_right allKeys allValues newLeaf =
     bindE (forE [midIndex_leaf ..< MaxKeys + 1] (\<lambda>i nl.
              bindE (read_at allKeys (int i)) (\<lambda>k.
              bindE (write_at (Keys nl) (int i - int midIndex_leaf) k) (\<lambda>ks.
              bindE (read_at allValues (int i)) (\<lambda>v.
              bindE (write_at (Values nl) (int i - int midIndex_leaf) v) (\<lambda>vs.
              Inr (nl\<lparr>Keys := ks, Values := vs\<rparr>)))))) newLeaf)
       (\<lambda>nl. Inr (nl\<lparr>NumKeys := int MaxKeys + 1 - int midIndex_leaf\<rparr>))"

definition clear_left :: "Node \<Rightarrow> error + Node" where
  "clear_left leaf =
     forE [midIndex_leaf ..< MaxKeys] (\<lambda>i lf.
       bindE (write_at (Keys lf) (int i) None) (\<lambda>ks.
       bindE (write_at (Values lf) (int i) None) (\<lambda>vs.
       Inr (lf\<lparr>Keys := ks, Values := vs\<rparr>)))) leaf"

text \<open>
  Creating a new root above \<open>left\<close> and \<open>right\<close> with one separator, as both
  \<open>splitAndInsert\<close> and \<open>splitInternal\<close> do when the split node has no parent.
\<close>

definition new_root :: "BTree \<Rightarrow> bytes \<Rightarrow> nat \<Rightarrow> nat \<Rightarrow> error + BTree" where
  "new_root bt sep left right =
     (let (newRoot, bt1) = alloc bt NewInternalNode in
      bindE (write_at (Keys (nodes bt1 newRoot)) 0 sep) (\<lambda>ks.
      bindE (write_at (Children (nodes bt1 newRoot)) 0 (Some left)) (\<lambda>cs0.
      bindE (write_at cs0 1 (Some right)) (\<lambda>cs.
      let bt2 = store bt1 newRoot ((nodes bt1 newRoot)\<lparr>Keys := ks, Children := cs, NumKeys := 1\<rparr>);
          bt3 = store bt2 left ((nodes bt2 left)\<lparr>Parent := Some newRoot\<rparr>);
          bt4 = store bt3 right ((nodes bt3 right)\<lparr>Parent := Some newRoot\<rparr>)
      in Inr (bt4\<lparr>root := Some newRoot\<rparr>)))))"

text \<open>
  \<open>splitAndInsert\<close> up to its last statement: the result is the tree after the split and,
  when the leaf has a parent, the arguments \<open>(parent, key, rightChild)\<close> of the pending
  call of \<open>insertIntoParent\<close>.
\<close>

definition splitAndInsert_split ::
  "BTree \<Rightarrow> nat \<Rightarrow> bytes \<Rightarrow> bytes \<Rightarrow> int \<Rightarrow> error + BTree \<times> (nat \<times> bytes \<times> nat) option" where
  "splitAndInsert_split bt leaf key val idx =
     bindE (merge_entries (nodes bt leaf) key val idx) (\<lambda>(allKeys, allValues).
     let (newLeaf, bt1) = alloc bt NewLeafNode in
     bindE (fill_left allKeys allValues (nodes bt1 leaf)) (\<lambda>lf1.
     let bt2 = store bt1 leaf lf1 in
     bindE (fill_right allKeys allValues (nodes bt2 newLeaf)) (\<lambda>nl1.
     let bt3 = store bt2 newLeaf nl1 in
     bindE (clear_left (nodes bt3 leaf)) (\<lambda>lf2.
     let bt4 = store bt3 leaf lf2;
         bt5 = store bt4 newLeaf ((nodes bt4 newLeaf)\<lparr>Next := Next (nodes bt4 leaf)\<rparr>);
         bt6 = store bt5 leaf ((nodes bt5 leaf)\<lparr>Next := Some newLeaf\<rparr>) in
     bindE (read_at (Keys (nodes bt6 newLeaf)) 0) (\<lambda>sep.
     case Parent (nodes bt6 leaf) of
       None \<Rightarrow> bindE (new_root bt6 sep leaf newLeaf) (\<lambda>bt7. Inr (bt7, None))
     | Some parent \<Rightarrow> Inr (bt6, Some (parent, sep, newLeaf)))))))"

text \<open>Field accesses through a node pointer.\<close>

definition get_key :: "BTree \<Rightarrow> nat \<Rightarrow> int \<Rightarrow> error + bytes" where
  "get_key bt a i = read_at (Keys (nodes bt a)) i"

definition set_key :: "BTree \<Rightarrow> nat \<Rightarrow> int \<Rightarrow> bytes \<Rightarrow> error + BTree" where
  "set_key bt a i v =
     bindE (write_at (Keys (nodes bt a)) i v) (\<lambda>ks. Inr (store bt a ((nodes bt a)\<lparr>Keys := ks\<rparr>)))"

definition get_child :: "BTree \<Rightarrow> nat \<Rightarrow> int \<Rightarrow> error + ptr" where
  "get_child bt a i = read_at (Children (nodes bt a)) i"

definition set_child :: "BTree \<Rightarrow> nat \<Rightarrow> int \<Rightarrow> ptr \<Rightarrow> error + BTree" where
  "set_child bt a i c =
     bindE (write_at (Children (nodes bt a)) i c) (\<lambda>cs. Inr (store bt a ((nodes bt a)\<lparr>Children := cs\<rparr>)))"

definition set_parent :: "BTree \<Rightarrow> nat \<Rightarrow> ptr \<Rightarrow> BTree" where
  "set_parent bt a p = store bt a ((nodes bt a)\<lparr>Parent := p\<rparr>)"

definition set_numkeys :: "BTree \<Rightarrow> nat \<Rightarrow> int \<Rightarrow> BTree" where
  "set_numkeys bt a n = store bt a ((nodes bt a)\<lparr>NumKeys := n\<rparr>)"

text \<open>\<open>if c != nil { c.Parent = newNode }\<close>\<close>

definition adopt :: "BTree \<Rightarrow> ptr \<Rightarrow> nat \<Rightarrow> BTree" where
  "adopt bt c newNode = (case c of None \<Rightarrow> bt | Some a \<Rightarrow> set_parent bt a (Some newNode))"

text \<open>
  The shifting loop of \<open>insertIntoParent\<close>:
  \<open>for i := parent.NumKeys; i > index; i-- { Keys[i] = Keys[i-1]; Children[i+1] = Children[i] }\<close>.
\<close>

function parent_shift :: "Node \<Rightarrow> int \<Rightarrow> int \<Rightarrow> error + Node" where
  "parent_shift parent idx i =
     (if i > idx then
        bindE (read_at (Keys parent) (i - 1)) (\<lambda>k.
        bindE (write_at (Keys parent) i k) (\<lambda>ks.
        bindE (read_at (Children parent) i) (\<lambda>c.
        bindE (write_at (Children parent) (i + 1) c) (\<lambda>cs.
        parent_shift (parent\<lparr>Keys := ks, Children := cs\<rparr>) idx (i - 1)))))
      else Inr parent)"
  by pat_completeness auto
termination
  by (relation "measure (\<lambda>(parent, idx, i). nat (i - idx))") auto

declare parent_shift.simps [simp del]

text \<open>\<open>insertIntoParent\<close> up to its test \<open>parent.IsFull()\<close>.\<close>

definition insertIntoParent_insert :: "BTree \<Rightarrow> nat \<Rightarrow> bytes \<Rightarrow> nat \<Rightarrow> error + BTree" where
  "insertIntoParent_insert bt parent key rightChild =
     (let bt1 = set_parent bt rightChild (Some parent) in
      bindE (findKeyIndex (Some (nodes bt1 parent)) key) (\<lambda>idx.
      bindE (parent_shift (nodes bt1 parent) idx (NumKeys (nodes bt1 parent))) (\<lambda>p1.
      bindE (write_at (Keys p1) idx key) (\<lambda>ks.
      bindE (write_at (Children p1) (idx + 1) (Some rightChild)) (\<lambda>cs.
      Inr (store bt1 parent (p1\<lparr>Keys := ks, Children := cs, NumKeys := NumKeys p1 + 1\<rparr>)))))))"

text \<open>
  \<open>splitInternal\<close> up to its last statement; as for \<open>splitAndInsert_split\<close>, the second
  component holds the arguments of the pending call of \<open>insertIntoParent\<close>.
\<close>

definition midIndex_internal :: nat where
  "midIndex_internal = MaxKeys div 2"

definition splitInternal_move :: "nat \<Rightarrow> nat \<Rightarrow> nat \<Rightarrow> BTree \<Rightarrow> error + BTree" where
  "splitInternal_move node newNode i bt =
     (let j = int i - int midIndex_internal - 1 in
      bindE (get_key bt node (int i)) (\<lambda>k.
      bindE (set_key bt newNode j k) (\<lambda>bt1.
      bindE (get_child bt1 node (int i)) (\<lambda>c.
      bindE (set_child bt1 newNode j c) (\<lambda>bt2.
      bindE (set_key bt2 node (int i) None) (\<lambda>bt3.
      bindE (set_child bt3 node (int i) None) (\<lambda>bt4.
      bindE (get_child bt4 newNode j) (\<lambda>c1.
      Inr (adopt bt4 c1 newNode)))))))))"

definition splitInternal_split :: "BTree \<Rightarrow> nat \<Rightarrow> error + BTree \<times> (nat \<times> bytes \<times> nat) option" where
  "splitInternal_split bt node =
     (let (newNode, bt0) = alloc bt NewInternalNode in
      bindE (forE [midIndex_internal + 1 ..< MaxKeys] (splitInternal_move node newNode) bt0) (\<lambda>bt1.
      bindE (get_child bt1 node (int MaxKeys)) (\<lambda>c.
      bindE (set_child bt1 newNode (int (MaxKeys div 2)) c) (\<lambda>bt2.
      bindE (get_child bt2 newNode (int (MaxKeys div 2))) (\<lambda>c1.
      let bt3 = adopt bt2 c1 newNode in
      bindE (set_child bt3 node (int MaxKeys) None) (\<lambda>bt4.
      bindE (get_key bt4 node (int midIndex_internal)) (\<lambda>middleKey.
      bindE (set_key bt4 node (int midIndex_internal) None) (\<lambda>bt5.
      let bt6 = set_numkeys bt5 node (int midIndex_internal);
          bt7 = set_numkeys bt6 newNode (int MaxKeys - int midIndex_internal - 1) in
      case Parent (nodes bt7 node) of
        None \<Rightarrow> bindE (new_root bt7 middleKey node newNode) (\<lambda>bt8. Inr (bt8, None))
      | Some parent \<Rightarrow> Inr (bt7, Some (parent, middleKey, newNode))))))))))"

text \<open>
  \<open>insertIntoParent\<close> and \<open>splitInternal\<close> call each other, climbing the \<open>Parent\<close>
  pointers; on a store whose parent pointers form a cycle of full nodes the recursion does
  not end, and the model has no result.
\<close>

partial_function (option) insertIntoParent :: "BTree \<Rightarrow> nat \<Rightarrow> bytes \<Rightarrow> nat \<Rightarrow> (error + BTree) option" where
  "insertIntoParent bt parent key rightChild =
     (case insertIntoParent_insert bt parent key rightChild of
        Inl e \<Rightarrow> Some (Inl e)
      | Inr bt1 \<Rightarrow>
          if IsFull (nodes bt1 parent) then
            (case splitInternal_split bt1 parent of
               Inl e \<Rightarrow> Some (Inl e)
             | Inr (bt2, None) \<Rightarrow> Some (Inr bt2)
             | Inr (bt2, Some (p, k, c)) \<Rightarrow> insertIntoParent bt2 p k c)
          else Some (Inr bt1))"

definition splitInternal :: "BTree \<Rightarrow> nat \<Rightarrow> (error + BTree) option" where
  "splitInternal bt node =
     (case splitInternal_split bt node of
        Inl e \<Rightarrow> Some (Inl e)
      | Inr (bt1, None) \<Rightarrow> Some (Inr bt1)
      | Inr (bt1, Some (p, k, c)) \<Rightarrow> insertIntoParent bt1 p k c)"

definition splitAndInsert :: "BTree \<Rightarrow> nat \<Rightarrow> bytes \<Rightarrow> bytes \<Rightarrow> int \<Rightarrow> (error + BTree) option" where
  "splitAndInsert bt leaf key val idx =
     (case splitAndInsert_split bt leaf key val idx of
        Inl e \<Rightarrow> Some (Inl e)
      | Inr (bt1, None) \<Rightarrow> Some (Inr bt1)
      | Inr (bt1, Some (p, k, c)) \<Rightarrow> insertIntoParent bt1 p k c)"

definition insertIntoLeaf :: "BTree \<Rightarrow> ptr \<Rightarrow> bytes \<Rightarrow> bytes \<Rightarrow> (error + BTree) option" where
  "insertIntoLeaf bt leaf key val =
     (case leaf of
        None \<Rightarrow> Some (Inr bt)
      | Some l \<Rightarrow>
          (case findKeyIndex (Some (nodes bt l)) key of
             Inl e \<Rightarrow> Some (Inl e)
           | Inr idx \<Rightarrow>
               if NumKeys (nodes bt l) = int MaxKeys then splitAndInsert bt l key val idx
               else if idx < 0 \<or> idx > int MaxKeys then Some (Inr bt)
               else
                 Some (bindE (insert_shift (nodes bt l) idx (NumKeys (nodes bt l))) (\<lambda>lf.
                       if idx < int (length (Keys lf)) \<and> idx < int (length (Values lf)) then
                         bindE (write_at (Keys lf) idx key) (\<lambda>ks.
                         bindE (write_at (Values lf) idx val) (\<lambda>vs.
                         Inr (store bt l (lf\<lparr>Keys := ks, Values := vs, NumKeys := NumKeys lf + 1\<rparr>))))
                       else Inr (store bt l lf)))))"

definition BTree_Set :: "BTree \<Rightarrow> bytes \<Rightarrow> bytes \<Rightarrow> (error + BTree) option" where
  "BTree_Set bt0 key val =
     (let bt = (if root bt0 = None
                then (let (r, b) = alloc bt0 NewLeafNode in b\<lparr>root := Some r\<rparr>) else bt0) in
      case findLeaf bt key of
        None \<Rightarrow> None
      | Some (Inl e) \<Rightarrow> Some (Inl e)
      | Some (Inr leaf) \<Rightarrow>
          (case bindE (findKeyIndex (deref bt leaf) key) (\<lambda>idx.
                bindE (key_at_index (deref bt leaf) idx key) (\<lambda>hit. Inr (idx, hit))) of
             Inl e \<Rightarrow> Some (Inl e)
           | Inr (idx, True) \<Rightarrow>
               (case leaf of
                  None \<Rightarrow> Some (Inl NilDereference)
                | Some l \<Rightarrow>
                    Some (bindE (write_at (Values (nodes bt l)) idx val) (\<lambda>vs.
                          Inr (store bt l ((nodes bt l)\<lparr>Values := vs\<rparr>)))))
           | Inr (idx, False) \<Rightarrow>
               (case insertIntoLeaf bt leaf key val of
                  None \<Rightarrow> None
                | Some (Inl e) \<Rightarrow> Some (Inl e)
                | Some (Inr bt1) \<Rightarrow> Some (Inr (bt1\<lparr>size := size bt1 + 1\<rparr>)))))"

text \<open>
  The shifting loop of \<open>deleteFromLeaf\<close>:
  \<open>for i := index; i < leaf.NumKeys-1; i++ { Keys[i] = Keys[i+1]; Values[i] = Values[i+1] }\<close>.
\<close>

function delete_shift :: "Node \<Rightarrow> int \<Rightarrow> error + Node" where
  "delete_shift leaf i =
     (if i < NumKeys leaf - 1 then
        bindE (read_at (Keys leaf) (i + 1)) (\<lambda>k.
        bindE (write_at (Keys leaf) i k) (\<lambda>ks.
        bindE (read_at (Values leaf) (i + 1)) (\<lambda>v.
        bindE (write_at (Values leaf) i v) (\<lambda>vs.
        delete_shift (leaf\<lparr>Keys := ks, Values := vs\<rparr>) (i + 1)))))
      else Inr leaf)"
  by pat_completeness auto
termination
  by (relation "measure (\<lambda>(leaf, i). nat (NumKeys leaf - i))") (auto simp: bindE_def)

declare delete_shift.simps [simp del]

text \<open>The body of \<open>handleUnderflow\<close> is empty: it returns without touching the tree.\<close>

definition handleUnderflow :: "BTree \<Rightarrow> nat \<Rightarrow> BTree" where
  "handleUnderflow bt node = bt"

definition deleteFromLeaf :: "BTree \<Rightarrow> nat \<Rightarrow> int \<Rightarrow> error + BTree" where
  "deleteFromLeaf bt leaf idx =
     bindE (delete_shift (nodes bt leaf) idx) (\<lambda>lf.
     let bt1 = store bt leaf (lf\<lparr>NumKeys := NumKeys lf - 1\<rparr>) in
     if IsUnderflow (nodes bt1 leaf) \<and> Parent (nodes bt1 leaf) \<noteq> None
     then Inr (handleUnderflow bt1 leaf) else Inr bt1)"

definition BTree_Delete :: "BTree \<Rightarrow> bytes \<Rightarrow> (error + BTree) option" where
  "BTree_Delete bt key =
     (if root bt = None then Some (Inr bt)
      else
        (case findLeaf bt key of
           None \<Rightarrow> None
         | Some (Inl e) \<Rightarrow> Some (Inl e)
         | Some (Inr leaf) \<Rightarrow>
             Some (bindE (findKeyIndex (deref bt leaf) key) (\<lambda>idx.
                   bindE (key_at_index (deref bt leaf) idx key) (\<lambda>hit.
                   if hit
                   then (case leaf of
                           None \<Rightarrow> Inl NilDereference
                         | Some l \<Rightarrow>
                             bindE (deleteFromLeaf bt l idx) (\<lambda>bt1.
                             Inr (bt1\<lparr>size := size bt1 - 1\<rparr>)))
                   else Inr bt)))))"

definition Size :: "BTree \<Rightarrow> int" where
  "Size bt = size bt"

subsection \<open>btree/iterator.go and \<open>FindLarger\<close>\<close>

record BTreeIterator =
  current :: ptr
  index :: int

text \<open>
  The loop of \<open>FindLarger\<close>:
  \<open>for index < leaf.NumKeys && bytes.Compare(leaf.KeyAt(index), key) <= 0 { index++ }\<close>.
\<close>

function skip_not_larger :: "Node \<Rightarrow> bytes \<Rightarrow> int \<Rightarrow> error + int" where
  "skip_not_larger leaf key i =
     (if i < NumKeys leaf then
        bindE (KeyAt leaf i) (\<lambda>k.
        if bytes_Compare k key \<le> 0 then skip_not_larger leaf key (i + 1) else Inr i)
      else Inr i)"
  by pat_completeness auto
termination
  by (relation "measure (\<lambda>(leaf, key, i). nat (NumKeys leaf - i))") auto

declare skip_not_larger.simps [simp del]

definition BTree_FindLarger :: "BTree \<Rightarrow> bytes \<Rightarrow> (error + BTreeIterator) option" where
  "BTree_FindLarger bt key =
     (if root bt = None then Some (Inr \<lparr>current = None, index = 0\<rparr>)
      else
        (case findLeaf bt key of
           None \<Rightarrow> None
         | Some (Inl e) \<Rightarrow> Some (Inl e)
         | Some (Inr leaf) \<Rightarrow>
             Some (bindE (findKeyIndex (deref bt leaf) key) (\<lambda>idx.
                   case leaf of
                     None \<Rightarrow> Inl NilDereference
                   | Some l \<Rightarrow>
                       bindE (skip_not_larger (nodes bt l) key idx) (\<lambda>idx1.
                       if idx1 \<ge> NumKeys (nodes bt l)
                       then Inr \<lparr>current = Next (nodes bt l), index = 0\<rparr>
                       else Inr \<lparr>current = leaf, index = idx1\<rparr>)))))"

definition BTreeIterator_Next :: "BTree \<Rightarrow> BTreeIterator \<Rightarrow> error + (bytes \<times> bytes) \<times> BTreeIterator" where
  "BTreeIterator_Next bt it =
     (case current it of
        None \<Rightarrow> Inr ((None, None), it)
      | Some c \<Rightarrow>
          if index it \<ge> NumKeys (nodes bt c) then Inr ((None, None), it)
          else
            bindE (KeyAt (nodes bt c) (index it)) (\<lambda>key.
            bindE (ValueAt (nodes bt c) (index it)) (\<lambda>val.
            let it1 = it\<lparr>index := index it + 1\<rparr> in
            if index it1 \<ge> NumKeys (nodes bt c) \<and> Next (nodes bt c) \<noteq> None
            then Inr ((key, val), it1\<lparr>current := Next (nodes bt c), index := 0\<rparr>)
            else Inr ((key, val), it1))))"

definition BTreeIterator_ContainsNext :: "BTree \<Rightarrow> BTreeIterator \<Rightarrow> bool" where
  "BTreeIterator_ContainsNext bt it =
     (case current it of
        None \<Rightarrow> False
      | Some c \<Rightarrow>
          if index it < NumKeys (nodes bt c) then True
          else (case Next (nodes bt c) of
                  None \<Rightarrow> False
                | Some n \<Rightarrow> NumKeys (nodes bt n) > 0))"

text \<open>The pairs returned by \<open>n\<close> successive calls of \<open>Next\<close>.\<close>

primrec next_n :: "nat \<Rightarrow> BTree \<Rightarrow> BTreeIterator \<Rightarrow> error + (bytes \<times> bytes) list" where
  "next_n 0 bt it = Inr []"
| "next_n (Suc n) bt it =
     bindE (BTreeIterator_Next bt it) (\<lambda>(kv, it1).
     bindE (next_n n bt it1) (\<lambda>kvs. Inr (kv # kvs)))"

text \<open>A sequence of \<open>Set\<close> calls, stopping at the first panic.\<close>

fun set_all :: "BTree \<Rightarrow> (bytes \<times> bytes) list \<Rightarrow> (error + BTree) option" where
  "set_all bt [] = Some (Inr bt)"
| "set_all bt ((k, v) # kvs) =
     (case BTree_Set bt k v of
        None \<Rightarrow> None
      | Some (Inl e) \<Rightarrow> Some (Inl e)
      | Some (Inr bt1) \<Rightarrow> set_all bt1 kvs)"

text \<open>The bytes of an ASCII string literal, as \<open>[]byte("...")\<close>.\<close>

definition bytes_of_string :: "string \<Rightarrow> bytes" where
  "bytes_of_string s = Some (map (\<lambda>c. of_nat (of_char c)) s)"

subsection \<open>storage: pages and the page manager\<close>

type_synonym PageID = "32 word"

definition PageSize :: nat where
  "PageSize = 4096"

definition PageHeaderSize :: nat where
  "PageHeaderSize = 16"

definition InvalidPageID :: PageID where
  "InvalidPageID = 0xFFFFFFFF"

definition FreePageType :: byte where
  "FreePageType = 0"

definition BTreeLeafType :: byte where
  "BTreeLeafType = 1"

definition BTreeInternalType :: byte where
  "BTreeInternalType = 2"

definition MetaPageType :: byte where
  "MetaPageType = 3"

record PageHeader =
  PageType :: byte
  Reserved :: byte
  DataLength :: "16 word"
  NextPage :: PageID
  PrevPage :: PageID
  Checksum :: "32 word"

text \<open>
  \<open>Data\<close> is the Go array \<open>[PageSize - PageHeaderSize]byte\<close>: every page built by the
  functions below holds a list of exactly that length.
\<close>

record Page =
  ID :: PageID
  Header :: PageHeader
  Data :: "byte list"

definition NewPage :: "PageID \<Rightarrow> byte \<Rightarrow> Page" where
  "NewPage pid pageType =
     \<lparr> ID = pid,
       Header = \<lparr> PageType = pageType, Reserved = 0, DataLength = 0,
                  NextPage = InvalidPageID, PrevPage = InvalidPageID, Checksum = 0 \<rparr>,
       Data = replicate (PageSize - PageHeaderSize) 0 \<rparr>"

definition PutUint16 :: "16 word \<Rightarrow> byte list" where
  "PutUint16 v = [ucast v, ucast (drop_bit 8 v)]"

definition Uint16 :: "byte list \<Rightarrow> 16 word" where
  "Uint16 b = (ucast (b ! 0)) OR push_bit 8 (ucast (b ! 1))"

definition Page_Serialize :: "Page \<Rightarrow> byte list" where
  "Page_Serialize p =
     [PageType (Header p), Reserved (Header p)] @ PutUint16 (DataLength (Header p)) @
     PutUint32 (NextPage (Header p)) @ PutUint32 (PrevPage (Header p)) @
     PutUint32 (Checksum (Header p)) @ Data p"

definition Page_Deserialize :: "Page \<Rightarrow> byte list \<Rightarrow> error + Page" where
  "Page_Deserialize p data =
     (if length data \<noteq> PageSize then Inl InvalidSize
      else Inr (p\<lparr> Header := \<lparr> PageType = data ! 0, Reserved = data ! 1,
                                DataLength = Uint16 (take 2 (drop 2 data)),
                                NextPage = Uint32 (take 4 (drop 4 data)),
                                PrevPage = Uint32 (take 4 (drop 8 data)),
                                Checksum = Uint32 (take 4 (drop 12 data)) \<rparr>,
                   Data := drop PageHeaderSize data \<rparr>))"

definition SetData :: "Page \<Rightarrow> byte list \<Rightarrow> error + Page" where
  "SetData p data =
     (if length data > length (Data p) then Inl DataTooLarge
      else Inr (p\<lparr> Data := data @ replicate (length (Data p) - length data) 0,
                   Header := (Header p)\<lparr>DataLength := word_of_nat (length data)\<rparr> \<rparr>))"

definition GetData :: "Page \<Rightarrow> error + byte list" where
  "GetData p =
     (if unat (DataLength (Header p)) \<le> length (Data p)
      then Inr (take (unat (DataLength (Header p))) (Data p)) else Inl SliceBounds)"

text \<open>
  \<open>updateChecksum\<close> sums the first \<open>DataLength\<close> bytes of \<open>Data\<close> in 32-bit arithmetic;
  indexing the array past its end panics.
\<close>

definition updateChecksum :: "Page \<Rightarrow> error + Page" where
  "updateChecksum p =
     (if unat (DataLength (Header p)) \<le> length (Data p)
      then Inr (p\<lparr>Header := (Header p)
                 \<lparr>Checksum := foldl (\<lambda>sum b. sum + ucast b) 0
                                 (take (unat (DataLength (Header p))) (Data p))\<rparr>\<rparr>)
      else Inl IndexOutOfRange)"

text \<open>
  The database file \<open>pm.file\<close> is its contents, or \<open>None\<close> once \<open>Close\<close> has set \<open>pm.file = nil\<close>.
  \<open>WriteAt\<close> past the end of the file fills the gap with zero bytes; \<open>ReadAt\<close> fails
  unless the whole page lies inside the file. Failures of the operating system itself are
  outside the model.
\<close>

record PageManager =
  dbfile :: "byte list option"
  nextPage :: PageID
  freeList :: "PageID list"

definition WriteAt :: "byte list \<Rightarrow> byte list \<Rightarrow> nat \<Rightarrow> byte list" where
  "WriteAt content buf off =
     (if off \<le> length content
      then take off content @ buf @ drop (off + length buf) content
      else content @ replicate (off - length content) 0 @ buf)"

definition writePageLocked :: "PageManager \<Rightarrow> Page \<Rightarrow> error + PageManager" where
  "writePageLocked pm page =
     (if ID page = InvalidPageID then Inl InvalidPageIDWrite
      else
        bindE (updateChecksum page) (\<lambda>page1.
        let off = unat (ID page1) * PageSize;
            buf = Page_Serialize page1 in
        case dbfile pm of
          None \<Rightarrow> Inl FileClosed
        | Some content \<Rightarrow> Inr (pm\<lparr>dbfile := Some (WriteAt content buf off)\<rparr>)))"

definition readPageLocked :: "PageManager \<Rightarrow> PageID \<Rightarrow> error + Page" where
  "readPageLocked pm pageID =
     (if pageID = InvalidPageID then Inl InvalidPageIDRead
      else
        let off = unat pageID * PageSize in
        case dbfile pm of
          None \<Rightarrow> Inl FileClosed
        | Some content \<Rightarrow>
            if off + PageSize \<le> length content
            then Page_Deserialize
                   \<lparr>ID = pageID, Header = \<lparr>PageType = 0, Reserved = 0, DataLength = 0,
                       NextPage = 0, PrevPage = 0, Checksum = 0\<rparr>,
                    Data = replicate (PageSize - PageHeaderSize) 0\<rparr>
                   (take PageSize (drop off content))
            else Inl ShortRead)"

definition ReadPage :: "PageManager \<Rightarrow> PageID \<Rightarrow> error + Page" where
  "ReadPage pm pageID = readPageLocked pm pageID"

definition WritePage :: "PageManager \<Rightarrow> Page \<Rightarrow> error + PageManager" where
  "WritePage pm page = writePageLocked pm page"

text \<open>
  \<open>AllocatePage\<close> returns the page ID together with the error of the write, and keeps
  the change of the free list or of \<open>nextPage\<close> also when the write fails.
\<close>

definition AllocatePage :: "PageManager \<Rightarrow> byte \<Rightarrow> PageID \<times> error option \<times> PageManager" where
  "AllocatePage pm pageType =
     (let (pageID, pm1) =
            (if length (freeList pm) > 0
             then (last (freeList pm), pm\<lparr>freeList := butlast (freeList pm)\<rparr>)
             else (nextPage pm, pm\<lparr>nextPage := nextPage pm + 1\<rparr>)) in
      case writePageLocked pm1 (NewPage pageID pageType) of
        Inl e \<Rightarrow> (pageID, Some e, pm1)
      | Inr pm2 \<Rightarrow> (pageID, None, pm2))"

definition DeallocatePage :: "PageManager \<Rightarrow> PageID \<Rightarrow> error option \<times> PageManager" where
  "DeallocatePage pm pageID =
     (case writePageLocked pm (NewPage pageID FreePageType) of
        Inl e \<Rightarrow> (Some e, pm)
      | Inr pm1 \<Rightarrow> (None, pm1\<lparr>freeList := freeList pm1 @ [pageID]\<rparr>))"

definition initializeIfEmpty :: "PageManager \<Rightarrow> error + PageManager" where
  "initializeIfEmpty pm =
     (case dbfile pm of
        None \<Rightarrow> Inl FileClosed
      | Some content \<Rightarrow>
          if length content = 0 then
            bindE (SetData (NewPage 0 MetaPageType) (data_of (bytes_of_string ''SIMPLEDB_V1''))) (\<lambda>metaPage.
            writePageLocked pm metaPage)
          else Inr pm)"

text \<open>\<open>NewPageManager\<close> on a file with the given contents (empty for a new file).\<close>

definition NewPageManager :: "byte list \<Rightarrow> error + PageManager" where
  "NewPageManager content =
     initializeIfEmpty \<lparr>dbfile = Some content, nextPage = 1, freeList = []\<rparr>"

definition PageManager_Close :: "PageManager \<Rightarrow> PageManager" where
  "PageManager_Close pm = pm\<lparr>dbfile := None\<rparr>"

subsection \<open>storage: the disk-backed B+Tree\<close>

text \<open>
  \<open>DiskBTree\<close> keeps its nodes as Go objects reached through \<open>cache\<close>; \<open>dnodes\<close> and
  \<open>dalloc\<close> are the store of these objects, as for the in-memory tree. \<open>nodeToPageID\<close> is
  the package-level map from node pointers to page IDs; its keys are pointers, so entries
  of another tree never match a node of this one, and the model keeps the map with the tree.

  The methods of \<open>DiskBTree\<close> return no error: on a failed load they return early, and
  they ignore the error of a failed save. A result \<open>Inl e\<close> below is a panic.
\<close>

record DiskBTree =
  pm :: PageManager
  rootID :: PageID
  cache :: "PageID \<Rightarrow> nat option"
  dnodes :: "nat \<Rightarrow> Node"
  dalloc :: nat
  nodeToPageID :: "nat \<Rightarrow> PageID option"

definition is_panic :: "error \<Rightarrow> bool" where
  "is_panic e = (e = IndexOutOfRange \<or> e = SliceBounds \<or> e = NilDereference)"

definition setNodePageID :: "DiskBTree \<Rightarrow> nat \<Rightarrow> PageID \<Rightarrow> DiskBTree" where
  "setNodePageID dbt node pageID = dbt\<lparr>nodeToPageID := (nodeToPageID dbt)(node := Some pageID)\<rparr>"

definition getPageIDFromNode :: "DiskBTree \<Rightarrow> nat \<Rightarrow> PageID" where
  "getPageIDFromNode dbt node =
     (case nodeToPageID dbt node of Some pageID \<Rightarrow> pageID | None \<Rightarrow> InvalidPageID)"

definition dstore :: "DiskBTree \<Rightarrow> nat \<Rightarrow> Node \<Rightarrow> DiskBTree" where
  "dstore dbt a n = dbt\<lparr>dnodes := (dnodes dbt)(a := n)\<rparr>"

definition loadNode :: "DiskBTree \<Rightarrow> PageID \<Rightarrow> error + nat \<times> DiskBTree" where
  "loadNode dbt pageID =
     (case cache dbt pageID of
        Some node \<Rightarrow> Inr (node, dbt)
      | None \<Rightarrow>
          bindE (ReadPage (pm dbt) pageID) (\<lambda>page.
          bindE (GetData page) (\<lambda>data.
          bindE (DeserializeNode data) (\<lambda>n.
          let node = dalloc dbt;
              dbt1 = (dstore dbt node n)\<lparr>dalloc := dalloc dbt + 1\<rparr>;
              dbt2 = setNodePageID dbt1 node pageID
          in Inr (node, dbt2\<lparr>cache := (cache dbt2)(pageID := Some node)\<rparr>)))))"

definition saveNode :: "DiskBTree \<Rightarrow> PageID \<Rightarrow> nat \<Rightarrow> error + DiskBTree" where
  "saveNode dbt pageID node =
     bindE (SerializeNode (Some (dnodes dbt node))) (\<lambda>data.
     let pageType = (if IsLeaf (dnodes dbt node) then BTreeLeafType else BTreeInternalType);
         page = NewPage pageID pageType in
     bindE (SetData page data) (\<lambda>page1.
     bindE (WritePage (pm dbt) page1) (\<lambda>pm1.
     let dbt1 = setNodePageID (dbt\<lparr>pm := pm1\<rparr>) node pageID
     in Inr (dbt1\<lparr>cache := (cache dbt1)(pageID := Some node)\<rparr>))))"

definition saveNodeFromCache :: "DiskBTree \<Rightarrow> nat \<Rightarrow> error + DiskBTree" where
  "saveNodeFromCache dbt node =
     (let pageID = getPageIDFromNode dbt node in
      if pageID \<noteq> InvalidPageID then
        (case saveNode dbt pageID node of
           Inl e \<Rightarrow> if is_panic e then Inl e else Inr dbt
         | Inr dbt1 \<Rightarrow> Inr dbt1)
      else Inr dbt)"

definition NewDiskBTree :: "PageManager \<Rightarrow> error + DiskBTree" where
  "NewDiskBTree pm0 =
     (let (rid, err, pm1) = AllocatePage pm0 BTreeLeafType in
      case err of
        Some e \<Rightarrow> Inl e
      | None \<Rightarrow>
          let dbt = \<lparr>pm = pm1, rootID = 0, cache = (\<lambda>_. None),
                     dnodes = (\<lambda>_. NewLeafNode)(0 := NewLeafNode), dalloc = 1,
                     nodeToPageID = (\<lambda>_. None)\<rparr> in
          bindE (saveNode dbt rid 0) (\<lambda>dbt1. Inr (dbt1\<lparr>rootID := rid\<rparr>)))"

text \<open>
  \<open>DiskBTree.findLeaf\<close>: the loop body is a single \<open>break\<close>, so the node it is given is
  returned, leaf or not. \<open>DiskBTree.findKeyIndex\<close> is a copy of \<open>BTree.findKeyIndex\<close>.
\<close>

definition DiskBTree_findLeaf :: "DiskBTree \<Rightarrow> ptr \<Rightarrow> bytes \<Rightarrow> ptr" where
  "DiskBTree_findLeaf dbt node key = node"

definition dderef :: "DiskBTree \<Rightarrow> ptr \<Rightarrow> Node option" where
  "dderef dbt p = map_option (dnodes dbt) p"

definition DiskBTree_Get :: "DiskBTree \<Rightarrow> bytes \<Rightarrow> error + (bytes \<times> bool) \<times> DiskBTree" where
  "DiskBTree_Get dbt key =
     (case loadNode dbt (rootID dbt) of
        Inl e \<Rightarrow> if is_panic e then Inl e else Inr ((None, False), dbt)
      | Inr (rt, dbt1) \<Rightarrow>
          let leaf = DiskBTree_findLeaf dbt1 (Some rt) key in
          bindE (findKeyIndex (dderef dbt1 leaf) key) (\<lambda>idx.
          bindE (key_at_index (dderef dbt1 leaf) idx key) (\<lambda>hit.
          if hit
          then (case dderef dbt1 leaf of
                  None \<Rightarrow> Inl NilDereference
                | Some n \<Rightarrow> bindE (ValueAt n idx) (\<lambda>v. Inr ((v, True), dbt1)))
          else Inr ((None, False), dbt1))))"

text \<open>
  The shifting loop of \<open>DiskBTree.insertIntoLeaf\<close>:
  \<open>for i := leaf.NumKeys; i > index; i-- { Keys[i] = Keys[i-1]; Values[i] = Values[i-1] }\<close>.
\<close>

function disk_insert_shift :: "Node \<Rightarrow> int \<Rightarrow> int \<Rightarrow> error + Node" where
  "disk_insert_shift leaf idx i =
     (if i > idx then
        bindE (read_at (Keys leaf) (i - 1)) (\<lambda>k.
        bindE (write_at (Keys leaf) i k) (\<lambda>ks.
        bindE (read_at (Values leaf) (i - 1)) (\<lambda>v.
        bindE (write_at (Values leaf) i v) (\<lambda>vs.
        disk_insert_shift (leaf\<lparr>Keys := ks, Values := vs\<rparr>) idx (i - 1)))))
      else Inr leaf)"
  by pat_completeness auto
termination
  by (relation "measure (\<lambda>(leaf, idx, i). nat (i - idx))") auto

declare disk_insert_shift.simps [simp del]

definition DiskBTree_insertIntoLeaf :: "DiskBTree \<Rightarrow> ptr \<Rightarrow> bytes \<Rightarrow> bytes \<Rightarrow> int \<Rightarrow> error + DiskBTree" where
  "DiskBTree_insertIntoLeaf dbt leaf key val idx =
     (case leaf of
        None \<Rightarrow> Inr dbt
      | Some l \<Rightarrow>
          if NumKeys (dnodes dbt l) < int MaxKeys then
            bindE (disk_insert_shift (dnodes dbt l) idx (NumKeys (dnodes dbt l))) (\<lambda>lf.
            bindE (write_at (Keys lf) idx key) (\<lambda>ks.
            bindE (write_at (Values lf) idx val) (\<lambda>vs.
            saveNodeFromCache
              (dstore dbt l (lf\<lparr>Keys := ks, Values := vs, NumKeys := NumKeys lf + 1\<rparr>)) l)))
          else Inr dbt)"

definition DiskBTree_Set :: "DiskBTree \<Rightarrow> bytes \<Rightarrow> bytes \<Rightarrow> error + DiskBTree" where
  "DiskBTree_Set dbt key val =
     (case loadNode dbt (rootID dbt) of
        Inl e \<Rightarrow> if is_panic e then Inl e else Inr dbt
      | Inr (rt, dbt1) \<Rightarrow>
          let leaf = DiskBTree_findLeaf dbt1 (Some rt) key in
          bindE (findKeyIndex (dderef dbt1 leaf) key) (\<lambda>idx.
          bindE (key_at_index (dderef dbt1 leaf) idx key) (\<lambda>hit.
          if hit
          then (case leaf of
                  None \<Rightarrow> Inl NilDereference
                | Some l \<Rightarrow>
                    bindE (write_at (Values (dnodes dbt1 l)) idx val) (\<lambda>vs.
                    saveNodeFromCache (dstore dbt1 l ((dnodes dbt1 l)\<lparr>Values := vs\<rparr>)) l))
          else DiskBTree_insertIntoLeaf dbt1 leaf key val idx)))"

definition DiskBTree_deleteFromLeaf :: "DiskBTree \<Rightarrow> ptr \<Rightarrow> int \<Rightarrow> error + DiskBTree" where
  "DiskBTree_deleteFromLeaf dbt leaf idx =
     (case leaf of
        None \<Rightarrow> Inr dbt
      | Some l \<Rightarrow>
          if idx < 0 \<or> idx \<ge> NumKeys (dnodes dbt l) then Inr dbt
          else
            bindE (delete_shift (dnodes dbt l) idx) (\<lambda>lf.
            saveNodeFromCache (dstore dbt l (lf\<lparr>NumKeys := NumKeys lf - 1\<rparr>)) l))"

definition DiskBTree_Delete :: "DiskBTree \<Rightarrow> bytes \<Rightarrow> error + DiskBTree" where
  "DiskBTree_Delete dbt key =
     (case loadNode dbt (rootID dbt) of
        Inl e \<Rightarrow> if is_panic e then Inl e else Inr dbt
      | Inr (rt, dbt1) \<Rightarrow>
          let leaf = DiskBTree_findLeaf dbt1 (Some rt) key in
          bindE (findKeyIndex (dderef dbt1 leaf) key) (\<lambda>idx.
          bindE (key_at_index (dderef dbt1 leaf) idx key) (\<lambda>hit.
          if hit then DiskBTree_deleteFromLeaf dbt1 leaf idx else Inr dbt1)))"

record DiskBTreeIterator =
  dcurrent :: PageID
  dindex :: int

definition DiskBTree_FindLarger :: "DiskBTree \<Rightarrow> bytes \<Rightarrow> error + DiskBTreeIterator \<times> DiskBTree" where
  "DiskBTree_FindLarger dbt key =
     (case loadNode dbt (rootID dbt) of
        Inl e \<Rightarrow> if is_panic e then Inl e
                 else Inr (\<lparr>dcurrent = InvalidPageID, dindex = 0\<rparr>, dbt)
      | Inr (rt, dbt1) \<Rightarrow>
          let leaf = DiskBTree_findLeaf dbt1 (Some rt) key in
          bindE (findKeyIndex (dderef dbt1 leaf) key) (\<lambda>idx.
          case leaf of
            None \<Rightarrow> Inl NilDereference
          | Some l \<Rightarrow>
              bindE (skip_not_larger (dnodes dbt1 l) key idx) (\<lambda>idx1.
              if idx1 \<ge> NumKeys (dnodes dbt1 l)
              then Inr (\<lparr>dcurrent = InvalidPageID, dindex = 0\<rparr>, dbt1)
              else Inr (\<lparr>dcurrent = getPageIDFromNode dbt1 l, dindex = idx1\<rparr>, dbt1))))"

definition DiskBTreeIterator_Next ::
  "DiskBTree \<Rightarrow> DiskBTreeIterator \<Rightarrow> error + (bytes \<times> bytes) \<times> DiskBTreeIterator \<times> DiskBTree" where
  "DiskBTreeIterator_Next dbt it =
     (if dcurrent it = InvalidPageID then Inr ((None, None), it, dbt)
      else
        (case loadNode dbt (dcurrent it) of
           Inl e \<Rightarrow> if is_panic e then Inl e else Inr ((None, None), it, dbt)
         | Inr (node, dbt1) \<Rightarrow>
             if dindex it \<ge> NumKeys (dnodes dbt1 node) then Inr ((None, None), it, dbt1)
             else
               bindE (KeyAt (dnodes dbt1 node) (dindex it)) (\<lambda>key.
               bindE (ValueAt (dnodes dbt1 node) (dindex it)) (\<lambda>val.
               let it1 = it\<lparr>dindex := dindex it + 1\<rparr> in
               if dindex it1 \<ge> NumKeys (dnodes dbt1 node)
               then Inr ((key, val), it1\<lparr>dcurrent := InvalidPageID\<rparr>, dbt1)
               else Inr ((key, val), it1, dbt1)))))"

definition DiskBTree_Close :: "DiskBTree \<Rightarrow> DiskBTree" where
  "DiskBTree_Close dbt = dbt\<lparr>cache := (\<lambda>_. None)\<rparr>"

text \<open>A sequence of \<open>DiskBTree.Set\<close> calls, stopping at the first panic.\<close>

fun disk_set_all :: "DiskBTree \<Rightarrow> (bytes \<times> bytes) list \<Rightarrow> error + DiskBTree" where
  "disk_set_all dbt [] = Inr dbt"
| "disk_set_all dbt ((k, v) # kvs) = bindE (DiskBTree_Set dbt k v) (\<lambda>dbt1. disk_set_all dbt1 kvs)"

subsection \<open>Sample inputs\<close>

text \<open>
  The leaf of the repository's test \<open>TestSerializeNodeWithEmptyValues\<close>: two keys, an
  empty value and a nil value.
\<close>

definition sample_leaf :: Node where
  "sample_leaf = NewLeafNode\<lparr>Keys := [bytes_of_string ''key1'', bytes_of_string ''key2'', None, None],
                              Values := [Some [], None, None, None], NumKeys := 2\<rparr>"

definition sample_leaf_bytes :: "byte list" where
  "sample_leaf_bytes =
     [1, 2, 0, 0, 0,
      4, 0, 0, 0, 107, 101, 121, 49, 0, 0, 0, 0,
      4, 0, 0, 0, 107, 101, 121, 50, 0, 0, 0, 0,
      0, 0, 0, 0]"

text \<open>An internal node whose single key is \<open>2^32\<close> bytes long.\<close>

definition huge_key_node :: Node where
  "huge_key_node = NewInternalNode\<lparr>Keys := [Some (replicate 4294967296 0), None, None, None], NumKeys := 1\<rparr>"

text \<open>An internal node encoding that declares five keys, each of length 0.\<close>

definition five_key_bytes :: "byte list" where
  "five_key_bytes = [0, 5, 0, 0, 0,  0, 0, 0, 0,  0, 0, 0, 0,  0, 0, 0, 0,  0, 0, 0, 0,  0, 0, 0, 0]"

text \<open>The keys \<open>"key01"\<close>, \<open>"key02"\<close>, ... of the repository's test \<open>TestBTreeSplitting\<close>.\<close>

definition key01 :: bytes where "key01 = bytes_of_string ''key01''"
definition key02 :: bytes where "key02 = bytes_of_string ''key02''"
definition key03 :: bytes where "key03 = bytes_of_string ''key03''"
definition key04 :: bytes where "key04 = bytes_of_string ''key04''"
definition key05 :: bytes where "key05 = bytes_of_string ''key05''"
definition key06 :: bytes where "key06 = bytes_of_string ''key06''"
definition key07 :: bytes where "key07 = bytes_of_string ''key07''"
definition key08 :: bytes where "key08 = bytes_of_string ''key08''"
definition key09 :: bytes where "key09 = bytes_of_string ''key09''"
definition key10 :: bytes where "key10 = bytes_of_string ''key10''"
definition key11 :: bytes where "key11 = bytes_of_string ''key11''"

text \<open>
  A page manager as in the repository's test \<open>TestPageManagerFreeList\<close> after pages 1 to 3
  were allocated and page 2 was freed.
\<close>

definition sample_pm :: PageManager where
  "sample_pm = \<lparr>dbfile = Some (replicate (4 * PageSize) 0), nextPage = 4, freeList = [2]\<rparr>"

subsection \<open>Invariants of the node store\<close>


definition leaves_kept :: "BTree \<Rightarrow> BTree \<Rightarrow> bool" where
  "leaves_kept bt bt' =
     (nalloc bt \<le> nalloc bt' \<and>
      list_all (\<lambda>a. Type (nodes bt' a) = Type (nodes bt a) \<and>
                     (if IsLeaf (nodes bt a)
                      then Keys (nodes bt' a) = Keys (nodes bt a) \<and>
                           Values (nodes bt' a) = Values (nodes bt a) \<and>
                           NumKeys (nodes bt' a) = NumKeys (nodes bt a) \<and>
                           Next (nodes bt' a) = Next (nodes bt a)
                      else True))
               [0 ..< nalloc bt])"


section \<open>Properties\<close>

subsection \<open>Evaluation of the model on concrete inputs\<close>

lemma NewLeafNode_eval:
  "NewLeafNode = \<lparr>Type = LeafNode, Keys = [None, None, None, None], Values = [None, None, None, None],
                  Children = [], Next = None, Parent = None, NumKeys = 0\<rparr>"
  by (simp add: NewLeafNode_def MaxKeys_def numeral_eq_Suc)

lemma NewInternalNode_eval:
  "NewInternalNode = \<lparr>Type = InternalNode, Keys = [None, None, None, None], Values = [],
                  Children = [None, None, None, None, None], Next = None, Parent = None, NumKeys = 0\<rparr>"
  by (simp add: NewInternalNode_def MaxKeys_def numeral_eq_Suc)

lemma list_update_numeral: "(x # xs)[numeral n := v] = x # xs[pred_numeral n := v]"
  by (simp add: numeral_eq_Suc)

lemma findKeyIndex_loop_numeral:
  "findKeyIndex_loop node key (numeral n) i =
     (case KeyAt node i of
        Inl e \<Rightarrow> Inl e
      | Inr nodeKey \<Rightarrow>
          if nodeKey = None then findKeyIndex_loop node key (pred_numeral n) (i + 1)
          else if bytes_Compare key nodeKey \<le> 0 then Inr i
          else findKeyIndex_loop node key (pred_numeral n) (i + 1))"
  by (simp add: numeral_eq_Suc)

lemma findChildIndex_loop_numeral:
  "findChildIndex_loop node key (numeral n) i =
     (case KeyAt node i of
        Inl e \<Rightarrow> Inl e
      | Inr nodeKey \<Rightarrow>
          if bytes_Compare key nodeKey < 0 then Inr i
          else findChildIndex_loop node key (pred_numeral n) (i + 1))"
  by (simp add: numeral_eq_Suc)

lemma next_n_numeral:
  "next_n (numeral n) bt it =
     bindE (BTreeIterator_Next bt it) (\<lambda>(kv, it1).
     bindE (next_n (pred_numeral n) bt it1) (\<lambda>kvs. Inr (kv # kvs)))"
  by (simp add: numeral_eq_Suc)

lemma ranges_num:
  "[0..<(2::nat)] = [0, 1]" "[2..<(5::nat)] = [2, 3, 4]" "[2..<(4::nat)] = [2, 3]" "[3..<(4::nat)] = [3]"
  by (simp_all add: upt_rec)

lemmas key_defs = key01_def key02_def key03_def key04_def key05_def key06_def key07_def
  key08_def key09_def key10_def key11_def bytes_of_string_def

lemmas eval_defs = ranges_num key_defs set_all.simps BTree_Set_def New_def alloc_def store_def deref_def
  findLeaf_def findLeaf_from.simps findKeyIndex_def key_at_index_def bindE_def KeyAt_def ValueAt_def ChildAt_def
  read_at_def write_at_def IsLeaf_def IsFull_def IsUnderflow_def NewLeafNode_eval NewInternalNode_eval
  MaxKeys_def MinKeys_def
  insertIntoLeaf_def insert_shift.simps splitAndInsert_def splitAndInsert_split_def merge_entries_def
  slice_def copy_at_def fill_left_def fill_right_def clear_left_def midIndex_leaf_def new_root_def
  insertIntoParent.simps insertIntoParent_insert_def parent_shift.simps splitInternal_split_def
  splitInternal_move_def midIndex_internal_def get_key_def set_key_def get_child_def set_child_def
  set_parent_def set_numkeys_def adopt_def findChildIndex_def bytes_Compare_def bytes_Equal_def data_of_def
  BTree_Get_def BTree_Delete_def deleteFromLeaf_def delete_shift.simps handleUnderflow_def
  BTree_FindLarger_def skip_not_larger.simps BTreeIterator_Next_def BTreeIterator_ContainsNext_def
  Size_def Let_def list_update_numeral findKeyIndex_loop_numeral findChildIndex_loop_numeral next_n_numeral

subsection \<open>The in-memory tree on the keys of the splitting test\<close>

text \<open>
  Claim C5. With \<open>MaxKeys = 4\<close>, after \<open>Set\<close> of the six keys \<open>"key01"\<close> .. \<open>"key06"\<close>, in this
  order and with any values \<open>v1\<close> .. \<open>v6\<close>, into the empty tree \<open>New()\<close>: all six calls
  return, \<open>Size()\<close> is 6, \<open>Get\<close> of each key returns its value with \<open>found = true\<close>, and
  the iterator of \<open>FindLarger("key02")\<close> returns the pairs of \<open>"key03"\<close>, \<open>"key04"\<close>,
  \<open>"key05"\<close>, \<open>"key06"\<close> in this order and then \<open>(nil, nil)\<close>.
\<close>

theorem C5_six_keys_scenario:
  "(case set_all New [(key01, v1), (key02, v2), (key03, v3), (key04, v4), (key05, v5), (key06, v6)] of
      Some (Inr bt) \<Rightarrow>
        Size bt = 6
        \<and> map (BTree_Get bt) [key01, key02, key03, key04, key05, key06]
            = map (\<lambda>v. Some (Inr (v, True))) [v1, v2, v3, v4, v5, v6]
        \<and> (case BTree_FindLarger bt key02 of
              Some (Inr it) \<Rightarrow>
                next_n 5 bt it = Inr [(key03, v3), (key04, v4), (key05, v5), (key06, v6), (None, None)]
            | _ \<Rightarrow> False)
    | _ \<Rightarrow> False)"
  by (simp add: eval_defs)

text \<open>
  Claim C1 (the code does not satisfy it). \<open>splitInternal\<close> stores the last child of the
  split node at \<open>newNode.Children[MaxKeys/2]\<close>, that is at index 2, while the new node
  has one key and so reads its children at indices 0 and 1 only. After \<open>Set\<close> of the
  eleven keys \<open>"key01"\<close> .. \<open>"key11"\<close> into the empty tree the root has split, and the
  leaf holding \<open>"key09"\<close>, \<open>"key10"\<close>, \<open>"key11"\<close> is no longer reachable from the root:
  \<open>Get("key10")\<close> returns \<open>(nil, false)\<close> and \<open>Get("key09")\<close> returns \<open>(nil, true)\<close>,
  although no \<open>Set\<close> or \<open>Delete\<close> of these keys followed.
\<close>

theorem C1_get_after_root_split:
  "(case set_all New [(key01, v1), (key02, v2), (key03, v3), (key04, v4), (key05, v5), (key06, v6),
                      (key07, v7), (key08, v8), (key09, v9), (key10, v10), (key11, v11)] of
      Some (Inr bt) \<Rightarrow>
        BTree_Get bt key10 = Some (Inr (None, False))
        \<and> BTree_Get bt key11 = Some (Inr (None, False))
        \<and> BTree_Get bt key09 = Some (Inr (None, True))
        \<and> BTree_Get bt key08 = Some (Inr (v8, True))
    | _ \<Rightarrow> False)"
  by (simp add: eval_defs)

subsection \<open>The node codec\<close>

lemma Uint32_PutUint32: "Uint32 (PutUint32 w) = w"
  unfolding Uint32_def PutUint32_def
  apply simp
  apply (rule bit_word_eqI)
  apply (auto simp add: bit_simps)
  subgoal for n by (cases "24 \<le> n") auto
  done

lemma length_PutUint32: "length (PutUint32 w) = 4"
  by (simp add: PutUint32_def)

lemma unat_len32: "length b < 2 ^ 32 \<Longrightarrow> unat (len32 b) = length b"
  by (simp add: len32_def unat_of_nat)

lemma serialize_entries_prefix:
  "serialize_entries n k i buf = Inr out \<Longrightarrow> \<exists>enc. out = buf @ enc"
proof (induction k arbitrary: i buf)
  case 0
  then show ?case by simp
next
  case (Suc k)
  then show ?case
    by (auto simp: Let_def split: sum.splits option.splits if_splits) 
       (metis append.assoc)+
qed

lemma serialize_entries_links:
  "serialize_entries (n\<lparr>Children := cs, Next := x, Parent := q\<rparr>) k i buf = serialize_entries n k i buf"
  by (induction k arbitrary: i buf)
     (auto simp add: KeyAt_def ValueAt_def IsLeaf_def Let_def split: sum.splits option.splits)

lemma deserialize_entries_links:
  "deserialize_entries d k i off node = Inr m \<Longrightarrow>
     Next m = Next node \<and> Parent m = Parent node \<and> Children m = Children node \<and> Type m = Type node
     \<and> NumKeys m = NumKeys node"
proof (induction k arbitrary: i off node)
  case 0
  then show ?case by simp
next
  case (Suc k)
  from Suc.prems show ?case
    by (auto simp: Let_def IsLeaf_def split: sum.splits if_splits dest!: Suc.IH)
qed


lemma trailer_zero: "concat (replicate k (replicate 4 (0::byte))) = replicate (4 * k) 0"
  by (induction k) (simp_all add: replicate_add[symmetric])

lemma PutUint32_zero: "PutUint32 0 = replicate 4 0"
  by (simp add: PutUint32_def numeral_eq_Suc)

lemma deserialize_entries_numeral:
  "deserialize_entries data (numeral n) i offset node =
     (if offset + 4 > length data then Inl InsufficientKeyLength
      else
        let keyLen = unat (Uint32 (take 4 (drop offset data)));
            offset1 = offset + 4 in
        if offset1 + keyLen > length data then Inl InsufficientKey
        else
          let key = take keyLen (drop offset1 data);
              offset2 = offset1 + keyLen in
          case write_at (Keys node) i (Some key) of
            Inl e \<Rightarrow> Inl e
          | Inr ks \<Rightarrow>
              let node1 = node\<lparr>Keys := ks\<rparr> in
              if IsLeaf node1 then
                if offset2 + 4 > length data then Inl InsufficientValueLength
                else
                  let valLen = unat (Uint32 (take 4 (drop offset2 data)));
                      offset3 = offset2 + 4 in
                  if offset3 + valLen > length data then Inl InsufficientValue
                  else
                    let val = take valLen (drop offset3 data);
                        offset4 = offset3 + valLen in
                    case write_at (Values node1) i (Some val) of
                      Inl e \<Rightarrow> Inl e
                    | Inr vs \<Rightarrow> deserialize_entries data (pred_numeral n) (i + 1) offset4 (node1\<lparr>Values := vs\<rparr>)
              else deserialize_entries data (pred_numeral n) (i + 1) offset2 node1)"
  by (simp add: numeral_eq_Suc)

lemma serialize_entries_numeral:
  "serialize_entries node (numeral n) i buf =
     (case KeyAt node i of
        Inl e \<Rightarrow> Inl e
      | Inr None \<Rightarrow> Inl (NilKey i)
      | Inr (Some key) \<Rightarrow>
          (let buf1 = buf @ PutUint32 (len32 key) @ key in
           if IsLeaf node then
             (case ValueAt node i of
                Inl e \<Rightarrow> Inl e
              | Inr v \<Rightarrow>
                  (let val = (case v of None \<Rightarrow> [] | Some b \<Rightarrow> b) in
                   serialize_entries node (pred_numeral n) (i + 1) (buf1 @ PutUint32 (len32 val) @ val)))
           else serialize_entries node (pred_numeral n) (i + 1) buf1))"
  by (simp add: numeral_eq_Suc)

lemma sample_leaf_encoding: "SerializeNode (Some sample_leaf) = Inr sample_leaf_bytes"
  by (simp add: sample_leaf_def sample_leaf_bytes_def SerializeNode_def NewLeafNode_eval IsLeaf_def
      KeyAt_def ValueAt_def read_at_def Let_def len32_def PutUint32_def bytes_of_string_def
      serialize_entries_numeral)

lemmas decode_eval = DeserializeNode_def deserialize_entries_numeral NewLeafNode_eval
  NewInternalNode_eval IsLeaf_def Uint32_def write_at_def Let_def list_update_numeral

lemma sample_leaf_decoding:
  "\<exists>m. DeserializeNode sample_leaf_bytes = Inr m \<and> IsLeaf m"
  by (simp add: sample_leaf_bytes_def decode_eval)

text \<open>
  Claim C7 (the code does not satisfy it). \<open>DeserializeNode\<close> creates the node with
  \<open>MaxKeys = 4\<close> key slots and then stores key \<open>i\<close> at \<open>node.Keys[i]\<close> for every
  \<open>i\<close> below the declared key count, which it never compares with \<open>MaxKeys\<close>. On a
  buffer that declares five keys and holds all five, the fifth store is outside the slice:
  the decoder panics with an index out of range instead of returning a node or one of its
  errors.
\<close>

theorem C7_decoder_panics_on_five_keys:
  "DeserializeNode five_key_bytes = Inl IndexOutOfRange"
  by (simp add: five_key_bytes_def decode_eval)

text \<open>
  Claim C9. The trailer written by \<open>SerializeNode\<close> does not depend on the links of the
  node: changing \<open>Children\<close>, \<open>Next\<close> and \<open>Parent\<close> leaves the result unchanged, and
  every successful encoding ends with the trailer of zero bytes (4 for a leaf, \<open>4 * (NumKeys + 1)\<close>
  for an internal node). Every node returned by \<open>DeserializeNode\<close>, whatever the buffer
  held, has the links of a freshly constructed node: \<open>Next\<close> and \<open>Parent\<close> are nil and the
  children are nil (an internal node) or absent (a leaf).
\<close>

theorem C9_links_not_encoded: "SerializeNode (Some (n\<lparr>Children := cs, Next := x, Parent := q\<rparr>)) = SerializeNode (Some n)
   \<and> (\<forall>b. SerializeNode (Some n) = Inr b \<longrightarrow>
        (\<exists>body. b = body @ replicate (if IsLeaf n then 4 else 4 * nat (NumKeys n + 1)) 0))
   \<and> (\<forall>d m. DeserializeNode d = Inr m \<longrightarrow>
        Next m = None \<and> Parent m = None \<and>
        Children m = (if IsLeaf m then [] else replicate (MaxKeys + 1) None))"
proof (intro conjI allI impI)
  show "SerializeNode (Some (n\<lparr>Children := cs, Next := x, Parent := q\<rparr>)) = SerializeNode (Some n)"
    by (auto simp add: SerializeNode_def serialize_entries_links IsLeaf_def split: sum.splits)
next
  fix b assume "SerializeNode (Some n) = Inr b"
  then show "\<exists>body. b = body @ replicate (if IsLeaf n then 4 else 4 * nat (NumKeys n + 1)) 0"
    by (auto simp: SerializeNode_def Let_def trailer_zero PutUint32_zero split: sum.splits if_splits)
next
  fix d m assume d: "DeserializeNode d = Inr m"
  then obtain m0 node where m0: "deserialize_entries d (unat (Uint32 (take 4 (drop 1 d)))) 0 5 node = Inr m0"
     and node: "node = (if d ! 0 = 1 then NewLeafNode else NewInternalNode)"
     and m: "m = m0\<lparr>NumKeys := int (unat (Uint32 (take 4 (drop 1 d))))\<rparr>"
    by (auto simp: DeserializeNode_def Let_def split: if_splits sum.splits)
  from deserialize_entries_links[OF m0] node m
  show "Next m = None" "Parent m = None" "Children m = (if IsLeaf m then [] else replicate (MaxKeys + 1) None)"
    by (auto simp: NewLeafNode_def NewInternalNode_def IsLeaf_def)
qed



theorem C9_links_not_encoded_witness:
  "SerializeNode (Some (sample_leaf\<lparr>Children := [Some 3], Next := Some 7, Parent := Some 1\<rparr>))
     = Inr sample_leaf_bytes
   \<and> (\<exists>body. sample_leaf_bytes = body @ replicate 4 0)
   \<and> (\<exists>m. DeserializeNode sample_leaf_bytes = Inr m \<and> Next m = None \<and> Parent m = None \<and> Children m = [])"
proof -
  note c9 = C9_links_not_encoded[where n = sample_leaf and cs = "[Some 3]" and x = "Some 7" and q = "Some 1"]
  have leaf: "IsLeaf sample_leaf"
    by (simp add: sample_leaf_def NewLeafNode_def IsLeaf_def)
  from sample_leaf_decoding obtain m where m: "DeserializeNode sample_leaf_bytes = Inr m"
    and mleaf: "IsLeaf m" by blast
  from c9 sample_leaf_encoding leaf m mleaf show ?thesis by auto
qed

lemma decode_field:
  assumes "length kb < 2 ^ 32"
  shows "unat (Uint32 (take 4 (drop (length buf) (buf @ PutUint32 (len32 kb) @ kb @ xs)))) = length kb"
    and "take (length kb) (drop (length buf + 4) (buf @ PutUint32 (len32 kb) @ kb @ xs)) = kb"
  using assms by (simp_all add: length_PutUint32 Uint32_PutUint32 unat_len32)

text \<open>What the decoder stores for entry \<open>j\<close> of the encoded node.\<close>

lemma roundtrip_loop:
  assumes "serialize_entries n k (int i) buf = Inr out"
    and "int i + int k \<le> NumKeys n"
    and "i + k \<le> length (Keys n)" "IsLeaf n \<Longrightarrow> i + k \<le> length (Values n)"
    and "\<And>j. i \<le> j \<Longrightarrow> j < i + k \<Longrightarrow> length (data_of (Keys n ! j)) < 2 ^ 32"
    and "\<And>j. IsLeaf n \<Longrightarrow> i \<le> j \<Longrightarrow> j < i + k \<Longrightarrow> length (data_of (Values n ! j)) < 2 ^ 32"
    and "Type node0 = Type n"
    and "i + k \<le> length (Keys node0)" "IsLeaf n \<Longrightarrow> i + k \<le> length (Values node0)"
  shows "\<exists>m. deserialize_entries (out @ rest) k (int i) (length buf) node0 = Inr m
           \<and> length (Keys m) = length (Keys node0) \<and> length (Values m) = length (Values node0)
           \<and> (\<forall>j < length (Keys node0). Keys m ! j =
                  (if i \<le> j \<and> j < i + k then Keys n ! j else Keys node0 ! j))
           \<and> (\<forall>j < length (Values node0). Values m ! j =
                  (if IsLeaf n \<and> i \<le> j \<and> j < i + k then Some (data_of (Values n ! j)) else Values node0 ! j))"
  using assms
proof (induction k arbitrary: i buf node0)
  case 0
  then show ?case by auto
next
  case (Suc k)
  have i_lt: "int i < NumKeys n" "i < length (Keys n)" "i < length (Keys node0)"
    using Suc.prems by auto
  have KeyAt: "KeyAt n (int i) = Inr (Keys n ! i)"
    using i_lt by (simp add: KeyAt_def read_at_def)
  from Suc.prems(1) KeyAt obtain kb where kb: "Keys n ! i = Some kb"
    by (auto split: option.splits)
  have kb_len: "length kb < 2 ^ 32"
    using Suc.prems(5)[of i] kb by (simp add: data_of_def)
  define buf1 where "buf1 = buf @ PutUint32 (len32 kb) @ kb"
  define ks where "ks = (Keys node0)[i := Some kb]"
  define node1 where "node1 = node0\<lparr>Keys := ks\<rparr>"
  have w1: "write_at (Keys node0) (int i) (Some kb) = Inr ks"
    using i_lt by (simp add: write_at_def ks_def)
  show ?case
  proof (cases "IsLeaf n")
    case False
    with Suc.prems(1) KeyAt kb have ser: "serialize_entries n k (int (Suc i)) buf1 = Inr out"
      by (simp add: buf1_def Let_def add.commute)
    from serialize_entries_prefix[OF ser] obtain enc where out: "out = buf1 @ enc" by blast
    have IH: "\<exists>m. deserialize_entries (out @ rest) k (int (Suc i)) (length buf1) node1 = Inr m
           \<and> length (Keys m) = length (Keys node1) \<and> length (Values m) = length (Values node1)
           \<and> (\<forall>j < length (Keys node1). Keys m ! j =
                  (if Suc i \<le> j \<and> j < Suc i + k then Keys n ! j else Keys node1 ! j))
           \<and> (\<forall>j < length (Values node1). Values m ! j =
                  (if IsLeaf n \<and> Suc i \<le> j \<and> j < Suc i + k then Some (data_of (Values n ! j)) else Values node1 ! j))"
      using Suc.prems False
      by (intro Suc.IH[OF ser]) (auto simp: node1_def ks_def)
    have dec: "deserialize_entries (out @ rest) (Suc k) (int i) (length buf) node0
               = deserialize_entries (out @ rest) k (int (Suc i)) (length buf1) node1"
      using False kb_len w1 Suc.prems(7) decode_field[OF kb_len, of buf "enc @ rest"]
      by (simp add: out buf1_def Let_def length_PutUint32 IsLeaf_def node1_def ac_simps)
    from IH obtain m where m: "deserialize_entries (out @ rest) k (int (Suc i)) (length buf1) node1 = Inr m"
      "length (Keys m) = length (Keys node1)" "length (Values m) = length (Values node1)"
      "\<forall>j < length (Keys node1). Keys m ! j =
                  (if Suc i \<le> j \<and> j < Suc i + k then Keys n ! j else Keys node1 ! j)"
      "\<forall>j < length (Values node1). Values m ! j =
                  (if IsLeaf n \<and> Suc i \<le> j \<and> j < Suc i + k then Some (data_of (Values n ! j)) else Values node1 ! j)"
      by blast
    show ?thesis
      using m False kb i_lt unfolding dec
      by (auto simp: node1_def ks_def nth_list_update)
  next
    case True
    have v_lt: "i < length (Values n)" "i < length (Values node0)"
      using Suc.prems True by auto
    have ValueAt: "ValueAt n (int i) = Inr (Values n ! i)"
      using i_lt v_lt True by (simp add: ValueAt_def read_at_def)
    define vb where "vb = data_of (Values n ! i)"
    have vb_len: "length vb < 2 ^ 32"
      using Suc.prems(6)[of i] True by (simp add: vb_def)
    define buf2 where "buf2 = buf1 @ PutUint32 (len32 vb) @ vb"
    define vs where "vs = (Values node0)[i := Some vb]"
    define node2 where "node2 = node1\<lparr>Values := vs\<rparr>"
    have w2: "write_at (Values node1) (int i) (Some vb) = Inr vs"
      using v_lt by (simp add: write_at_def vs_def node1_def)
    from Suc.prems(1) KeyAt kb True ValueAt have ser: "serialize_entries n k (int (Suc i)) buf2 = Inr out"
      by (simp add: buf1_def buf2_def vb_def data_of_def Let_def add.commute)
    from serialize_entries_prefix[OF ser] obtain enc where out: "out = buf2 @ enc" by blast
    have IH: "\<exists>m. deserialize_entries (out @ rest) k (int (Suc i)) (length buf2) node2 = Inr m
           \<and> length (Keys m) = length (Keys node2) \<and> length (Values m) = length (Values node2)
           \<and> (\<forall>j < length (Keys node2). Keys m ! j =
                  (if Suc i \<le> j \<and> j < Suc i + k then Keys n ! j else Keys node2 ! j))
           \<and> (\<forall>j < length (Values node2). Values m ! j =
                  (if IsLeaf n \<and> Suc i \<le> j \<and> j < Suc i + k then Some (data_of (Values n ! j)) else Values node2 ! j))"
      using Suc.prems True
      by (intro Suc.IH[OF ser]) (auto simp: node1_def node2_def ks_def vs_def)
    have leaf1: "IsLeaf node1"
      using True Suc.prems(7) by (simp add: IsLeaf_def node1_def)
    have dec: "deserialize_entries (out @ rest) (Suc k) (int i) (length buf) node0
               = deserialize_entries (out @ rest) k (int (Suc i)) (length buf2) node2"
      using leaf1 kb_len vb_len w1 w2
        decode_field[OF kb_len, of buf "PutUint32 (len32 vb) @ vb @ enc @ rest"]
        decode_field[OF vb_len, of buf1 "enc @ rest"]
      by (simp add: out buf1_def buf2_def Let_def length_PutUint32 node1_def node2_def ac_simps)
    from IH obtain m where m: "deserialize_entries (out @ rest) k (int (Suc i)) (length buf2) node2 = Inr m"
      "length (Keys m) = length (Keys node2)" "length (Values m) = length (Values node2)"
      "\<forall>j < length (Keys node2). Keys m ! j =
                  (if Suc i \<le> j \<and> j < Suc i + k then Keys n ! j else Keys node2 ! j)"
      "\<forall>j < length (Values node2). Values m ! j =
                  (if IsLeaf n \<and> Suc i \<le> j \<and> j < Suc i + k then Some (data_of (Values n ! j)) else Values node2 ! j)"
      by blast
    show ?thesis
      using m True kb i_lt v_lt unfolding dec
      by (auto simp: node1_def node2_def ks_def vs_def vb_def nth_list_update)
  qed
qed


lemma serialize_entries_ok:
  assumes "int i + int k \<le> NumKeys n" "i + k \<le> length (Keys n)"
    and "IsLeaf n \<Longrightarrow> i + k \<le> length (Values n)"
    and "\<And>j. i \<le> j \<Longrightarrow> j < i + k \<Longrightarrow> Keys n ! j \<noteq> None"
  shows "\<exists>out. serialize_entries n k (int i) buf = Inr out"
  using assms
proof (induction k arbitrary: i buf)
  case 0
  then show ?case by simp
next
  case (Suc k)
  have KeyAt: "KeyAt n (int i) = Inr (Keys n ! i)"
    using Suc.prems by (simp add: KeyAt_def read_at_def)
  from Suc.prems(4)[of i] obtain kb where kb: "Keys n ! i = Some kb" by auto
  have ih: "\<exists>out. serialize_entries n k (int (Suc i)) b = Inr out" for b
    using Suc.prems by (intro Suc.IH) auto
  show ?case
  proof (cases "IsLeaf n")
    case True
    then have "ValueAt n (int i) = Inr (Values n ! i)"
      using Suc.prems by (simp add: ValueAt_def read_at_def)
    then show ?thesis using KeyAt kb True ih by (simp add: Let_def add.commute)
  next
    case False
    then show ?thesis using KeyAt kb ih by (simp add: Let_def add.commute)
  qed
qed

text \<open>
  Claim C6 (corrected). The lengths of keys and values are written as \<open>uint32(len(...))\<close>,
  which keeps the low 32 bits. For every node with \<open>0 \<le> NumKeys \<le> MaxKeys\<close>, key and
  value slices of \<open>MaxKeys\<close> slots, no nil key below \<open>NumKeys\<close>, and every key and leaf
  value below \<open>NumKeys\<close> shorter than \<open>2^32\<close> bytes, \<open>SerializeNode\<close> succeeds,
  \<open>DeserializeNode\<close> succeeds on its output, and the decoded node has the same
  leaf/internal flag, the same key count, the same keys, and for a leaf the same values
  with a nil value read back as the empty slice.
\<close>

theorem C6_roundtrip:
  assumes "0 \<le> NumKeys n" "NumKeys n \<le> int MaxKeys"
    and "length (Keys n) = MaxKeys" "IsLeaf n \<Longrightarrow> length (Values n) = MaxKeys"
    and "\<forall>j < nat (NumKeys n). Keys n ! j \<noteq> None \<and> length (data_of (Keys n ! j)) < 2 ^ 32
             \<and> (IsLeaf n \<longrightarrow> length (data_of (Values n ! j)) < 2 ^ 32)"
  shows "\<exists>b m. SerializeNode (Some n) = Inr b \<and> DeserializeNode b = Inr m
           \<and> IsLeaf m = IsLeaf n \<and> NumKeys m = NumKeys n
           \<and> (\<forall>i. 0 \<le> i \<and> i < NumKeys n \<longrightarrow>
                 KeyAt m i = KeyAt n i
               \<and> (IsLeaf n \<longrightarrow> (\<exists>v. ValueAt n i = Inr v \<and> ValueAt m i = Inr (Some (data_of v)))))"
proof -
  define N where "N = nat (NumKeys n)"
  have N: "int N = NumKeys n" "N \<le> MaxKeys" using assms by (auto simp: N_def)
  define hdr where "hdr = [if IsLeaf n then 1 else 0 :: byte] @ PutUint32 (word_of_int (NumKeys n))"
  have hdr_len: "length hdr = 5" by (simp add: hdr_def length_PutUint32)
  obtain out where out: "serialize_entries n N (int 0) hdr = Inr out"
    using serialize_entries_ok[of 0 N n hdr] assms N by (auto simp: N_def)
  define trailer where "trailer = (if \<not> IsLeaf n then concat (replicate (nat (NumKeys n + 1)) (PutUint32 0))
                                   else PutUint32 0)"
  have ser: "SerializeNode (Some n) = Inr (out @ trailer)"
    using out by (simp add: SerializeNode_def hdr_def trailer_def N_def Let_def)
  from serialize_entries_prefix[OF out] obtain enc where enc: "out = hdr @ enc" by blast
  define node0 where "node0 = (if IsLeaf n then NewLeafNode else NewInternalNode)"
  have node0: "Type node0 = Type n" "length (Keys node0) = MaxKeys" "IsLeaf n \<Longrightarrow> length (Values node0) = MaxKeys"
    by (cases "Type n"; simp add: node0_def IsLeaf_def NewLeafNode_def NewInternalNode_def)+
  have "\<exists>m. deserialize_entries (out @ trailer) N (int 0) (length hdr) node0 = Inr m
           \<and> length (Keys m) = length (Keys node0) \<and> length (Values m) = length (Values node0)
           \<and> (\<forall>j < length (Keys node0). Keys m ! j =
                  (if 0 \<le> j \<and> j < 0 + N then Keys n ! j else Keys node0 ! j))
           \<and> (\<forall>j < length (Values node0). Values m ! j =
                  (if IsLeaf n \<and> 0 \<le> j \<and> j < 0 + N then Some (data_of (Values n ! j)) else Values node0 ! j))"
    using assms N node0 by (intro roundtrip_loop[OF out]) (auto simp: N_def)
  then obtain m0 where m0: "deserialize_entries (out @ trailer) N 0 5 node0 = Inr m0"
      and lens: "length (Keys m0) = MaxKeys" "length (Values m0) = length (Values node0)"
      and keys: "\<forall>j < MaxKeys. Keys m0 ! j = (if j < N then Keys n ! j else Keys node0 ! j)"
      and vals: "\<forall>j < length (Values node0). Values m0 ! j =
                  (if IsLeaf n \<and> j < N then Some (data_of (Values n ! j)) else Values node0 ! j)"
    using node0 hdr_len by auto
  have numKeys: "unat (Uint32 (take 4 (drop 1 (out @ trailer)))) = N"
  proof -
    have "take 4 (drop 1 (out @ trailer)) = PutUint32 (word_of_int (NumKeys n))"
      by (simp add: enc hdr_def length_PutUint32)
    moreover have "unat (word_of_int (NumKeys n) :: 32 word) = N"
    proof -
      have "0 \<le> NumKeys n" "NumKeys n < 4294967296"
        using assms(1,2) by (simp_all add: MaxKeys_def)
      then have "NumKeys n mod 4294967296 = NumKeys n" by simp
      then show ?thesis
        by (simp add: N_def unat_eq_nat_uint uint_word_of_int)
    qed
    ultimately show ?thesis by (simp add: Uint32_PutUint32)
  qed
  have first: "(out @ trailer) ! 0 = 1 \<longleftrightarrow> IsLeaf n"
    by (simp add: enc hdr_def)
  define m where "m = m0\<lparr>NumKeys := int N\<rparr>"
  have des: "DeserializeNode (out @ trailer) = Inr m"
    using m0 numKeys first hdr_len enc
    by (auto simp: DeserializeNode_def Let_def node0_def m_def)
  have links: "Type m0 = Type node0"
    using deserialize_entries_links[OF m0] by simp
  have leaf: "IsLeaf m = IsLeaf n"
    using links node0 by (simp add: m_def IsLeaf_def)
  have "KeyAt m i = KeyAt n i \<and> (IsLeaf n \<longrightarrow> (\<exists>v. ValueAt n i = Inr v \<and> ValueAt m i = Inr (Some (data_of v))))"
    if "0 \<le> i \<and> i < NumKeys n" for i
  proof -
    have i: "nat i < N" "nat i < MaxKeys" "0 \<le> i" "i < int N" using that N by (auto simp: N_def)
    have k: "KeyAt m i = KeyAt n i"
      using i keys lens assms(3) by (simp add: KeyAt_def m_def read_at_def N)
    have v: "\<exists>v. ValueAt n i = Inr v \<and> ValueAt m i = Inr (Some (data_of v))" if "IsLeaf n"
      using i vals lens assms(4) node0 that leaf
      by (simp add: ValueAt_def m_def read_at_def N IsLeaf_def)
    show ?thesis using k v by blast
  qed
  then show ?thesis using ser des leaf N by (auto simp: m_def)
qed

text \<open>
  Without the bound on the lengths the round trip fails: a key of \<open>2^32\<close> bytes is written
  with length 0 and read back as the empty key.
\<close>

lemma len32_huge: "len32 (replicate 4294967296 0) = 0"
  by (simp add: len32_def)

lemma huge_key_encoding:
  "SerializeNode (Some huge_key_node) =
     Inr ([0] @ PutUint32 1 @ PutUint32 0 @ replicate 4294967296 0 @ PutUint32 0 @ PutUint32 0)"
  by (simp add: huge_key_node_def SerializeNode_def NewInternalNode_def IsLeaf_def KeyAt_def
      read_at_def Let_def len32_huge numeral_eq_Suc[of "num.Bit0 num.One"])

lemma huge_key_decoding:
  "\<exists>m. DeserializeNode ([0] @ PutUint32 1 @ PutUint32 0 @ replicate 4294967296 0 @ PutUint32 0 @ PutUint32 0) = Inr m
       \<and> KeyAt m 0 = Inr (Some [])"
proof -
  have n: "unat (Uint32 (PutUint32 1)) = Suc 0" "unat (Uint32 (PutUint32 0)) = 0"
    by (simp_all add: Uint32_PutUint32)
  show ?thesis
    using n
    by (simp add: DeserializeNode_def length_PutUint32 Let_def NewInternalNode_def MaxKeys_def
        write_at_def read_at_def IsLeaf_def KeyAt_def)
qed

theorem C6_huge_key_counterexample:
  "\<exists>b m. SerializeNode (Some huge_key_node) = Inr b \<and> DeserializeNode b = Inr m
      \<and> KeyAt m 0 = Inr (Some []) \<and> KeyAt huge_key_node 0 = Inr (Some (replicate 4294967296 0))"
  using huge_key_encoding huge_key_decoding
  by (auto simp: huge_key_node_def KeyAt_def read_at_def NewInternalNode_def)

theorem C6_roundtrip_witness:
  "\<exists>b m. SerializeNode (Some sample_leaf) = Inr b \<and> DeserializeNode b = Inr m
      \<and> IsLeaf m \<and> NumKeys m = 2
      \<and> KeyAt m 0 = Inr (bytes_of_string ''key1'') \<and> KeyAt m 1 = Inr (bytes_of_string ''key2'')
      \<and> ValueAt m 0 = Inr (Some []) \<and> ValueAt m 1 = Inr (Some [])"
proof -
  have wf: "0 \<le> NumKeys sample_leaf" "NumKeys sample_leaf \<le> int MaxKeys"
    "length (Keys sample_leaf) = MaxKeys" "IsLeaf sample_leaf \<Longrightarrow> length (Values sample_leaf) = MaxKeys"
    "\<forall>j < nat (NumKeys sample_leaf). Keys sample_leaf ! j \<noteq> None \<and> length (data_of (Keys sample_leaf ! j)) < 2 ^ 32
             \<and> (IsLeaf sample_leaf \<longrightarrow> length (data_of (Values sample_leaf ! j)) < 2 ^ 32)"
    by (simp_all add: sample_leaf_def NewLeafNode_def MaxKeys_def bytes_of_string_def data_of_def
        less_2_cases_iff)
  from C6_roundtrip[OF wf] obtain b m where
    r: "SerializeNode (Some sample_leaf) = Inr b" "DeserializeNode b = Inr m"
       "IsLeaf m = IsLeaf sample_leaf" "NumKeys m = NumKeys sample_leaf"
       "\<forall>i. 0 \<le> i \<and> i < NumKeys sample_leaf \<longrightarrow>
                 KeyAt m i = KeyAt sample_leaf i
               \<and> (IsLeaf sample_leaf \<longrightarrow> (\<exists>v. ValueAt sample_leaf i = Inr v \<and> ValueAt m i = Inr (Some (data_of v))))"
    by blast
  have "KeyAt m 0 = KeyAt sample_leaf 0" "KeyAt m 1 = KeyAt sample_leaf 1"
    "\<exists>v. ValueAt sample_leaf 0 = Inr v \<and> ValueAt m 0 = Inr (Some (data_of v))"
    "\<exists>v. ValueAt sample_leaf 1 = Inr v \<and> ValueAt m 1 = Inr (Some (data_of v))"
    using r(5) by (simp_all add: sample_leaf_def NewLeafNode_def IsLeaf_def)
  then show ?thesis using r(1-4)
    by (auto simp: sample_leaf_def NewLeafNode_def IsLeaf_def KeyAt_def ValueAt_def read_at_def data_of_def)
qed

subsection \<open>Deletion\<close>





text \<open>
  Claim C3 (the code does not satisfy it). \<open>deleteFromLeaf\<close> detects the underflow and
  calls \<open>handleUnderflow\<close>, whose body is empty: nothing is borrowed or merged. After
  \<open>Set\<close> of \<open>"key01"\<close> .. \<open>"key05"\<close> the root has the two leaves \<open>[key01, key02]\<close> and
  \<open>[key03, key04, key05]\<close>; \<open>Delete("key01")\<close> leaves the first leaf, which is not the
  root, with one key, fewer than \<open>MinKeys = 2\<close>, and changes neither its sibling nor
  its parent.
\<close>

theorem C3_delete_leaves_underflow:
  "(case set_all New [(key01, v1), (key02, v2), (key03, v3), (key04, v4), (key05, v5)] of
      Some (Inr bt) \<Rightarrow>
        (case BTree_Delete bt key01 of
           Some (Inr bt') \<Rightarrow>
             root bt' = Some 2 \<and> Parent (nodes bt' 0) = Some 2
             \<and> findLeaf bt' key02 = Some (Inr (Some 0))
             \<and> IsLeaf (nodes bt' 0) \<and> NumKeys (nodes bt' 0) = 1 \<and> MinKeys = 2
             \<and> IsUnderflow (nodes bt' 0)
             \<and> nodes bt' 1 = nodes bt 1 \<and> nodes bt' 2 = nodes bt 2
         | _ \<Rightarrow> False)
    | _ \<Rightarrow> False)"
  by (simp add: eval_defs)

subsection \<open>The page manager\<close>

lemma length_PutUint16: "length (PutUint16 w) = 2"
  by (simp add: PutUint16_def)

lemma length_PutUint32': "length (PutUint32 w) = 4"
  by (simp add: PutUint32_def)

lemma NewPage_checksum: "updateChecksum (NewPage pid t) = Inr (NewPage pid t)"
  by (simp add: updateChecksum_def NewPage_def)

lemma length_Page_Serialize_NewPage: "length (Page_Serialize (NewPage pid t)) = PageSize"
  by (simp add: Page_Serialize_def NewPage_def length_PutUint16 length_PutUint32' PageSize_def PageHeaderSize_def)

lemma WriteAt_read_back:
  "take (length buf) (drop off (WriteAt content buf off)) = buf"
  by (simp add: WriteAt_def)

lemma writePageLocked_NewPage:
  "writePageLocked p (NewPage pid t) = Inr p' \<Longrightarrow>
     pid \<noteq> InvalidPageID \<and> freeList p' = freeList p \<and> nextPage p' = nextPage p
     \<and> (\<exists>content. dbfile p' = Some content
           \<and> take PageSize (drop (unat pid * PageSize) content) = Page_Serialize (NewPage pid t))"
  using WriteAt_read_back[of "Page_Serialize (NewPage pid t)" "unat pid * PageSize"]
  by (auto simp: writePageLocked_def NewPage_checksum bindE_def Let_def length_Page_Serialize_NewPage
      split: if_splits option.splits)
     (simp_all add: NewPage_def)

text \<open>
  Claim C8. \<open>AllocatePage\<close> returns the last element of a non-empty free list and removes
  it; with an empty free list it returns \<open>nextPage\<close> and increments it. In both
  cases the returned error is that of writing the page \<open>NewPage(pageID, pageType)\<close>, whose
  payload is all zero, at \<open>pageID * PageSize\<close>: when no error is returned the file holds
  that page there, and a fresh ID is one below the new \<open>nextPage\<close>. After a
  \<open>DeallocatePage(id)\<close> that returned no error, \<open>AllocatePage\<close> returns \<open>id\<close>.
\<close>

theorem C8_allocate_page:
  assumes "AllocatePage p t = (pid, err, p')"
  shows "(freeList p \<noteq> [] \<longrightarrow>
            pid = last (freeList p) \<and> freeList p' = butlast (freeList p) \<and> nextPage p' = nextPage p)
       \<and> (freeList p = [] \<longrightarrow>
            pid = nextPage p \<and> nextPage p' = nextPage p + 1 \<and> freeList p' = []
            \<and> (err = None \<longrightarrow> unat (nextPage p') = unat pid + 1))
       \<and> Data (NewPage pid t) = replicate (PageSize - PageHeaderSize) 0
       \<and> PageType (Header (NewPage pid t)) = t
       \<and> (err = None \<longrightarrow>
            (\<exists>content. dbfile p' = Some content
               \<and> take PageSize (drop (unat pid * PageSize) content) = Page_Serialize (NewPage pid t)))
       \<and> (\<forall>q q' freed. DeallocatePage q freed = (None, q') \<longrightarrow> fst (AllocatePage q' t) = freed)"
proof -
  define p1 where "p1 = (if length (freeList p) > 0 then p\<lparr>freeList := butlast (freeList p)\<rparr>
                          else p\<lparr>nextPage := nextPage p + 1\<rparr>)"
  have pid: "pid = (if length (freeList p) > 0 then last (freeList p) else nextPage p)"
    using assms by (auto simp: AllocatePage_def Let_def split: if_splits sum.splits)
  have w: "(case writePageLocked p1 (NewPage pid t) of Inl e \<Rightarrow> (Some e, p1) | Inr p2 \<Rightarrow> (None, p2)) = (err, p')"
    using assms by (auto simp: AllocatePage_def Let_def p1_def split: if_splits sum.splits)
  have lists: "freeList p' = freeList p1" "nextPage p' = nextPage p1"
    using w writePageLocked_NewPage[of p1 pid t] by (auto split: sum.splits)
  have written: "\<exists>content. dbfile p' = Some content
               \<and> take PageSize (drop (unat pid * PageSize) content) = Page_Serialize (NewPage pid t)"
    and valid: "pid \<noteq> InvalidPageID" if "err = None"
    using that w writePageLocked_NewPage[of p1 pid t] by (auto split: sum.splits)
  have fresh: "unat (nextPage p') = unat pid + 1" if "err = None" "freeList p = []"
  proof -
    have "unat pid \<noteq> unat (4294967295 :: 32 word)"
      using valid[OF that(1)] by (simp add: InvalidPageID_def word_unat_eq_iff)
    then have "unat pid < 4294967295"
      using unsigned_less[of pid, where 'a = nat] by simp
    then have "unat pid + unat (1 :: 32 word) < 2 ^ LENGTH(32)"
      by simp
    then have "unat (pid + 1) = unat pid + 1"
      using unat_add_lem[of pid 1] by simp
    then show ?thesis using that lists pid by (simp add: p1_def)
  qed
  have realloc: "fst (AllocatePage q' t) = freed" if "DeallocatePage q freed = (None, q')" for q q' freed
  proof -
    from that obtain q1 where "q' = q1\<lparr>freeList := freeList q1 @ [freed]\<rparr>"
      by (auto simp: DeallocatePage_def split: sum.splits)
    then show ?thesis by (simp add: AllocatePage_def Let_def split: sum.splits)
  qed
  show ?thesis
    using pid lists written fresh realloc
    by (auto simp: p1_def NewPage_def)
qed


theorem C8_allocate_page_witness:
  "fst (AllocatePage sample_pm BTreeInternalType) = 2
   \<and> fst (snd (AllocatePage sample_pm BTreeInternalType)) = None
   \<and> freeList (snd (snd (AllocatePage sample_pm BTreeInternalType))) = []
   \<and> nextPage (snd (snd (AllocatePage sample_pm BTreeInternalType))) = 4
   \<and> (\<exists>content. dbfile (snd (snd (AllocatePage sample_pm BTreeInternalType))) = Some content
         \<and> take PageSize (drop (2 * PageSize) content) = Page_Serialize (NewPage 2 BTreeInternalType))
   \<and> fst (DeallocatePage sample_pm 3) = None
   \<and> fst (AllocatePage (snd (DeallocatePage sample_pm 3)) BTreeInternalType) = 3"
proof -
  have eq: "AllocatePage sample_pm BTreeInternalType =
      (fst (AllocatePage sample_pm BTreeInternalType),
       fst (snd (AllocatePage sample_pm BTreeInternalType)),
       snd (snd (AllocatePage sample_pm BTreeInternalType)))"
    by simp
  note c8 = C8_allocate_page[OF eq]
  have err: "fst (snd (AllocatePage sample_pm BTreeInternalType)) = None"
    by (simp add: AllocatePage_def sample_pm_def Let_def writePageLocked_def NewPage_checksum bindE_def)
       (simp add: NewPage_def InvalidPageID_def)
  have dealloc: "DeallocatePage sample_pm 3 = (None, snd (DeallocatePage sample_pm 3))"
    by (simp add: DeallocatePage_def sample_pm_def Let_def writePageLocked_def NewPage_checksum bindE_def)
       (simp add: NewPage_def InvalidPageID_def)
  have fl: "freeList sample_pm \<noteq> []" "last (freeList sample_pm) = 2" "butlast (freeList sample_pm) = []"
    "nextPage sample_pm = 4"
    by (simp_all add: sample_pm_def)
  have two: "unat (2 :: 32 word) = 2" by simp
  have d1: "fst (DeallocatePage sample_pm 3) = None"
    using dealloc by (metis fst_conv)
  from c8 dealloc have d2: "fst (AllocatePage (snd (DeallocatePage sample_pm 3)) BTreeInternalType) = 3"
    by blast
  from c8 err fl two d1 d2 show ?thesis
    by (auto simp del: fst_conv snd_conv)
qed

subsection \<open>Splitting a full leaf\<close>












lemma leaves_kept_iff:
  "leaves_kept bt bt' \<longleftrightarrow>
     nalloc bt \<le> nalloc bt' \<and>
     (\<forall>a < nalloc bt. Type (nodes bt' a) = Type (nodes bt a) \<and>
        (IsLeaf (nodes bt a) \<longrightarrow>
           Keys (nodes bt' a) = Keys (nodes bt a) \<and> Values (nodes bt' a) = Values (nodes bt a) \<and>
           NumKeys (nodes bt' a) = NumKeys (nodes bt a) \<and> Next (nodes bt' a) = Next (nodes bt a)))"
  by (auto simp: leaves_kept_def list_all_iff)



lemma leaves_kept_size: "leaves_kept bt bt' \<Longrightarrow> leaves_kept bt (bt'\<lparr>size := n\<rparr>)"
  by (simp add: leaves_kept_iff)





























subsection \<open>The disk-backed tree on the keys of the splitting test\<close>

lemmas disk_defs = NewPageManager_def initializeIfEmpty_def SetData_def NewPage_def PageSize_def PageHeaderSize_def
  writePageLocked_def updateChecksum_def WritePage_def ReadPage_def readPageLocked_def AllocatePage_def
  InvalidPageID_def MetaPageType_def BTreeLeafType_def BTreeInternalType_def Page_Serialize_def WriteAt_def
  NewDiskBTree_def saveNode_def saveNodeFromCache_def setNodePageID_def getPageIDFromNode_def dstore_def
  loadNode_def DiskBTree_findLeaf_def dderef_def DiskBTree_Get_def DiskBTree_Set_def DiskBTree_insertIntoLeaf_def
  DiskBTree_FindLarger_def DiskBTreeIterator_Next_def
  disk_insert_shift.simps disk_set_all.simps is_panic_def SerializeNode_def serialize_entries_numeral len32_def
  PutUint32_def PutUint16_def

text \<open>
  Claim C2 (the code does not satisfy it). \<open>DiskBTree.insertIntoLeaf\<close> inserts only while
  \<open>leaf.NumKeys < MaxKeys\<close> and does nothing otherwise; \<open>DiskBTree.findLeaf\<close> never descends
  and \<open>DiskBTree.FindLarger\<close> never follows a next pointer. On a new file, after \<open>Set\<close> of
  \<open>"key01"\<close> .. \<open>"key05"\<close> (each with its key as value), the disk tree has dropped the fifth
  key: \<open>Get("key05")\<close> returns \<open>(nil, false)\<close> and the iterator of \<open>FindLarger("key04")\<close> is
  exhausted, while the in-memory tree after the same calls returns \<open>("key05", true)\<close> and
  an iterator that yields \<open>("key05", "key05")\<close>.
\<close>

theorem C2_disk_tree_drops_fifth_key:
  "(case NewPageManager [] of
      Inr pm0 \<Rightarrow>
        (case NewDiskBTree pm0 of
           Inr dbt0 \<Rightarrow>
             (case disk_set_all dbt0
                     [(key01, key01), (key02, key02), (key03, key03), (key04, key04), (key05, key05)] of
                Inr dbt \<Rightarrow>
                  (case DiskBTree_Get dbt key04 of Inr (res, _) \<Rightarrow> res = (key04, True) | _ \<Rightarrow> False)
                  \<and> (case DiskBTree_Get dbt key05 of Inr (res, _) \<Rightarrow> res = (None, False) | _ \<Rightarrow> False)
                  \<and> (case DiskBTree_FindLarger dbt key04 of
                        Inr (it, dbt1) \<Rightarrow>
                          (case DiskBTreeIterator_Next dbt1 it of
                             Inr (kv, _) \<Rightarrow> kv = (None, None) | _ \<Rightarrow> False)
                      | _ \<Rightarrow> False)
              | _ \<Rightarrow> False)
         | _ \<Rightarrow> False)
    | _ \<Rightarrow> False)
   \<and> (case set_all New [(key01, key01), (key02, key02), (key03, key03), (key04, key04), (key05, key05)] of
        Some (Inr bt) \<Rightarrow>
          BTree_Get bt key04 = Some (Inr (key04, True))
          \<and> BTree_Get bt key05 = Some (Inr (key05, True))
          \<and> (case BTree_FindLarger bt key04 of
                Some (Inr it) \<Rightarrow>
                  (case BTreeIterator_Next bt it of Inr (kv, _) \<Rightarrow> kv = (key05, key05) | _ \<Rightarrow> False)
              | _ \<Rightarrow> False)
      | _ \<Rightarrow> False)"
  by (simp add: eval_defs disk_defs)

end
